theory Spec2Isabelle
  imports Complex_Main "HOL-Library.Product_Lexorder"
begin

section \<open>The training driver of train.py\<close>

text \<open>
  The driver is the script body of train.py together with its helpers
  \<^verbatim>\<open>train_step\<close> and \<^verbatim>\<open>evaluate\<close>. Its collaborators (the model, the optimizer,
  the problem, the learning-rate schedule, numpy) live in other modules; they are
  taken as the fields of a record of functions over an abstract world \<open>'w\<close> that
  holds everything they own (parameters, optimizer state, random state).
  Python integers are \<open>int\<close>. A Python float is read as the real number it
  stands for (nan and the infinities are left out), and comparisons of floats are
  the comparisons of these reals; the sums and quotients of floats, which round, are
  not real sums and quotients: they are the two fields \<open>float_add\<close> and
  \<open>float_div\<close> of the record, of which nothing is assumed. The attention
  weights a forward pass returns and the training metric of a batch are computed and
  then dropped by the script; they are left out, as is the elapsed time of the
  records.
\<close>

subsection \<open>Data\<close>

datatype error = AssertionError | NameError | ValueError | ZeroDivisionError

text \<open>One element of \<^verbatim>\<open>problem.iterate(...)\<close>: the tuple (ids, targets, epoch_progress).\<close>

record ('i, 't) batch =
  ids :: 'i
  targets :: 't
  epoch_progress :: real

text \<open>The dictionary returned by \<^verbatim>\<open>problem.metric_fn\<close>; only its key accuracy is read.\<close>

record metric =
  accuracy :: real

text \<open>The dictionary that \<^verbatim>\<open>json.dumps\<close> turns into \<^verbatim>\<open>best_result\<close>.\<close>

record 'z snapshot =
  snap_epoch :: int
  snap_val_loss :: real
  snap_val_metric :: "'z metric_scheme"
  snap_test_metric :: "'z metric_scheme"

text \<open>The variables Ti, mult and Tcur, bound only under the cosine schedule.\<close>

record cyclic =
  Ti :: int
  mult :: int
  Tcur :: int

text \<open>
  What the run writes, in order. \<open>LearningRate Tcur p Ti\<close> stands for the call
  \<^verbatim>\<open>lr_scheduler(Tcur + epoch_progress, epochs=Ti)\<close> and the print of its result;
  \<open>TrainRecord\<close> and \<open>EvalRecord\<close> are the two JSON records (the elapsed time is
  left out); \<open>Done\<close> is the line on stderr and \<open>Result\<close> is \<^verbatim>\<open>print(best_result)\<close>,
  which prints the text None when there is no snapshot.
\<close>

datatype 'z event =
    LearningRate int real int
  | TrainRecord int real
  | EvalRecord int real "'z metric_scheme" "'z metric_scheme" int
  | Done
  | Result "'z snapshot option"

text \<open>
  The collaborators. A forward pass \<open>model C w ids train\<close> returns the predictions and
  the world it leaves behind; \<open>backward_step\<close> is the gradient step of
  \<^verbatim>\<open>train_step\<close> (\<^verbatim>\<open>zero_grad\<close>, \<^verbatim>\<open>backward\<close>, \<^verbatim>\<open>optimizer.step\<close>);
  \<open>loss_fn C pred targets\<close> is \<^verbatim>\<open>loss_fn(pred, targets.squeeze()).item()\<close>.
\<close>

record ('w, 'i, 't, 'a, 'z) collab =
  iterate :: "'w \<Rightarrow> string \<Rightarrow> bool \<Rightarrow> int \<Rightarrow> ('i, 't) batch list"
  model :: "'w \<Rightarrow> 'i \<Rightarrow> bool \<Rightarrow> 't \<times> 'w"
  model_train :: "'w \<Rightarrow> 'w"
  model_eval :: "'w \<Rightarrow> 'w"
  loss_fn :: "'t \<Rightarrow> 't \<Rightarrow> real"
  metric_fn :: "'a \<Rightarrow> 'a \<Rightarrow> 'z metric_scheme"
  to_numpy :: "'t \<Rightarrow> 'a"
  vstack :: "'a list \<Rightarrow> 'a"
  lr_scheduler :: "real \<Rightarrow> int option \<Rightarrow> real"
  set_lr :: "'w \<Rightarrow> real \<Rightarrow> 'w"
  backward_step :: "'w \<Rightarrow> 'i \<Rightarrow> 't \<Rightarrow> 'w"
  float_add :: "real \<Rightarrow> real \<Rightarrow> real"
  float_div :: "real \<Rightarrow> real \<Rightarrow> real"

text \<open>The command-line arguments the loop reads.\<close>

record args =
  args_batch_size :: int
  args_epochs :: int
  args_lr_schedule :: string
  args_tolerance :: int
  args_log_interval :: int

record ('w, 'z) run_state =
  world :: 'w
  tolerance :: int
  best_val_loss :: real
  best_val_acc :: real
  best_result :: "'z snapshot option"
  cyc :: "cyclic option"
  out :: "'z event list"

subsection \<open>Helpers\<close>

text \<open>\<^verbatim>\<open>np.vstack\<close> raises ValueError on an empty list of arrays.\<close>

definition np_vstack :: "('a list \<Rightarrow> 'a) \<Rightarrow> 'a list \<Rightarrow> error + 'a" where
  "np_vstack stack xs = (if xs = [] then Inl ValueError else Inr (stack xs))"

text \<open>
  \<^verbatim>\<open>train_step\<close>: the forward pass in training mode, the loss, then the gradient
  step in the world the forward pass left.
\<close>

definition train_step ::
  "('w, 'i, 't, 'a, 'z) collab \<Rightarrow> 'w \<Rightarrow> 'i \<Rightarrow> 't \<Rightarrow> 'w \<times> real \<times> 't" where
  "train_step C w i t =
     (case model C w i True of
        (preds, w1) \<Rightarrow>
          (let loss = loss_fn C preds t
           in (backward_step C w1 i t, loss, preds)))"

text \<open>
  The loop of \<^verbatim>\<open>evaluate\<close>, with its three accumulators loss, preds and acts, and
  the world the forward passes go through.
\<close>

fun evaluate_loop ::
  "('w, 'i, 't, 'a, 'z) collab \<Rightarrow> ('i, 't) batch list \<Rightarrow>
   'w \<times> real \<times> 'a list \<times> 'a list \<Rightarrow> 'w \<times> real \<times> 'a list \<times> 'a list" where
  "evaluate_loop C [] acc = acc"
| "evaluate_loop C (b # bs) (w, loss, preds, acts) =
     (case model C w (ids b) False of
        (pred, w1) \<Rightarrow>
          evaluate_loop C bs
            (w1, float_add C loss (loss_fn C pred (targets b)),
             preds @ [to_numpy C pred],
             acts @ [to_numpy C (targets b)]))"

text \<open>\<^verbatim>\<open>evaluate\<close> returns the loss and the metrics; the world it leaves comes third.\<close>

definition evaluate ::
  "('w, 'i, 't, 'a, 'z) collab \<Rightarrow> 'w \<Rightarrow> int \<Rightarrow> string \<Rightarrow>
   error + (real \<times> 'z metric_scheme \<times> 'w)" where
  "evaluate C w batch_size mode =
     (if mode \<notin> set [''test'', ''val''] then Inl AssertionError
      else
        (case evaluate_loop C (iterate C w mode False batch_size) (w, 0, [], []) of
           (w1, loss, preds, acts) \<Rightarrow>
             (case np_vstack (vstack C) acts of
                Inl e \<Rightarrow> Inl e
              | Inr a \<Rightarrow>
                  (case np_vstack (vstack C) preds of
                     Inl e \<Rightarrow> Inl e
                   | Inr p \<Rightarrow> Inr (loss, metric_fn C a p, w1)))))"

subsection \<open>The epoch loop\<close>

definition init_state :: "args \<Rightarrow> 'w \<Rightarrow> ('w, 'z) run_state" where
  "init_state A w =
     \<lparr> world = w, tolerance = 0, best_val_loss = 100000, best_val_acc = 0,
       best_result = None,
       cyc = (if args_lr_schedule A = ''cosine''
              then Some \<lparr> Ti = 1, mult = 2, Tcur = 0 \<rparr> else None),
       out = [] \<rparr>"

text \<open>
  The inner loop over the training batches of one epoch. Without the cosine schedule
  the progress is \<^verbatim>\<open>(epoch + epoch_progress) / args.epochs\<close>, which raises when
  \<^verbatim>\<open>args.epochs\<close> is 0.
\<close>

fun train_batches ::
  "args \<Rightarrow> ('w, 'i, 't, 'a, 'z) collab \<Rightarrow> int \<Rightarrow> cyclic option \<Rightarrow> ('i, 't) batch list \<Rightarrow>
   'w \<times> real \<times> 'z event list \<Rightarrow> error + ('w \<times> real \<times> 'z event list)" where
  "train_batches A C epoch cy [] acc = Inr acc"
| "train_batches A C epoch cy (b # bs) (w, train_loss, lg) =
     (if args_lr_schedule A = ''cosine'' then
        (case cy of
           None \<Rightarrow> Inl NameError
         | Some c \<Rightarrow>
             (let lr = lr_scheduler C (float_add C (of_int (Tcur c)) (epoch_progress b))
                         (Some (Ti c));
                  w1 = set_lr C w lr;
                  lg1 = lg @ [LearningRate (Tcur c) (epoch_progress b) (Ti c)]
              in case train_step C w1 (ids b) (targets b) of
                   (w2, loss, preds) \<Rightarrow>
                     train_batches A C epoch cy bs (w2, float_add C train_loss loss, lg1)))
      else if args_epochs A = 0 then Inl ZeroDivisionError
      else
        (let lr = lr_scheduler C
                    (float_div C (float_add C (of_int epoch) (epoch_progress b))
                       (of_int (args_epochs A))) None;
             w1 = set_lr C w lr
         in case train_step C w1 (ids b) (targets b) of
              (w2, loss, preds) \<Rightarrow>
                train_batches A C epoch cy bs (w2, float_add C train_loss loss, lg)))"

text \<open>The block under the comment "update learning rate for cosine annealing".\<close>

definition update_cosine :: "args \<Rightarrow> cyclic option \<Rightarrow> error + cyclic option" where
  "update_cosine A cy =
     (if args_lr_schedule A = ''cosine'' then
        (case cy of
           None \<Rightarrow> Inl NameError
         | Some c \<Rightarrow>
             if Ti c = 0 then Inl ZeroDivisionError
             else if Tcur c mod Ti c = 0 \<and> Tcur c > 0
               then Inr (Some (c\<lparr> Ti := Ti c * mult c, Tcur := 0 \<rparr>))
               else Inr (Some (c\<lparr> Tcur := Tcur c + 1 \<rparr>)))
      else Inr cy)"

text \<open>
  The first half of the loop body: \<^verbatim>\<open>model.train()\<close>, the batches, the training
  record, and the bookkeeping of the cosine schedule.
\<close>

definition train_epoch ::
  "args \<Rightarrow> ('w, 'i, 't, 'a, 'z) collab \<Rightarrow> int \<Rightarrow> ('w, 'z) run_state \<Rightarrow>
   error + ('w, 'z) run_state" where
  "train_epoch A C epoch s =
     (let w0 = model_train C (world s)
      in case train_batches A C epoch (cyc s)
                (iterate C w0 ''train'' True (args_batch_size A)) (w0, 0, out s) of
           Inl e \<Rightarrow> Inl e
         | Inr (w1, train_loss, lg) \<Rightarrow>
             (case update_cosine A (cyc s) of
                Inl e \<Rightarrow> Inl e
              | Inr cy \<Rightarrow>
                  Inr (s\<lparr> world := w1, cyc := cy,
                         out := lg @ [TrainRecord epoch train_loss] \<rparr>)))"

text \<open>The condition of the improvement check.\<close>

definition improves :: "real \<Rightarrow> real \<Rightarrow> ('w, 'z) run_state \<Rightarrow> bool" where
  "improves acc loss s \<longleftrightarrow>
     acc > best_val_acc s \<or> (acc = best_val_acc s \<and> loss < best_val_loss s)"

text \<open>
  The block under "Evaluate", once the log-interval test has passed:
  \<^verbatim>\<open>model.eval()\<close>, the pass over the validation split, the pass over the test
  split, the improvement check and the record.
\<close>

definition evaluation_round ::
  "args \<Rightarrow> ('w, 'i, 't, 'a, 'z) collab \<Rightarrow> int \<Rightarrow> ('w, 'z) run_state \<Rightarrow>
   error + ('w, 'z) run_state" where
  "evaluation_round A C epoch s =
     (let w = model_eval C (world s)
      in case evaluate C w (args_batch_size A) ''val'' of
           Inl e \<Rightarrow> Inl e
         | Inr (loss, val_metric, w1) \<Rightarrow>
             (case evaluate C w1 (args_batch_size A) ''test'' of
                Inl e \<Rightarrow> Inl e
              | Inr (_, test_metric, w2) \<Rightarrow>
                  (let s1 =
                     (if improves (accuracy val_metric) loss s
                      then s\<lparr> tolerance := 0, best_val_loss := loss,
                              best_val_acc := accuracy val_metric,
                              best_result := Some \<lparr> snap_epoch = epoch, snap_val_loss = loss,
                                snap_val_metric = val_metric,
                                snap_test_metric = test_metric \<rparr> \<rparr>
                      else s\<lparr> tolerance := tolerance s + 1 \<rparr>)
                   in Inr (s1\<lparr> world := w2,
                               out := out s1 @
                                 [EvalRecord epoch loss val_metric test_metric
                                    (tolerance s1)] \<rparr>))))"

text \<open>The body of the loop after the early-stopping test.\<close>

definition epoch_body ::
  "args \<Rightarrow> ('w, 'i, 't, 'a, 'z) collab \<Rightarrow> int \<Rightarrow> ('w, 'z) run_state \<Rightarrow>
   error + ('w, 'z) run_state" where
  "epoch_body A C epoch s =
     (case train_epoch A C epoch s of
        Inl e \<Rightarrow> Inl e
      | Inr s1 \<Rightarrow>
          if args_log_interval A = 0 then Inl ZeroDivisionError
          else if epoch mod args_log_interval A = 0 then evaluation_round A C epoch s1
          else Inr s1)"

text \<open>\<^verbatim>\<open>for epoch in range(args.epochs)\<close>, entered with the next value of the counter.\<close>

function epoch_loop ::
  "args \<Rightarrow> ('w, 'i, 't, 'a, 'z) collab \<Rightarrow> int \<Rightarrow> ('w, 'z) run_state \<Rightarrow>
   error + ('w, 'z) run_state" where
  "epoch_loop A C epoch s =
     (if epoch < args_epochs A then
        (if tolerance s > args_tolerance A then Inr s
         else
           (case epoch_body A C epoch s of
              Inl e \<Rightarrow> Inl e
            | Inr s1 \<Rightarrow> epoch_loop A C (epoch + 1) s1))
      else Inr s)"
  by pat_completeness auto
termination
  by (relation "measure (\<lambda>(A, C, epoch, s). nat (args_epochs A - epoch))") auto

declare epoch_loop.simps [simp del]

text \<open>The script from "Train" to its last line, started in the world \<open>w\<close>.\<close>

definition main ::
  "args \<Rightarrow> ('w, 'i, 't, 'a, 'z) collab \<Rightarrow> 'w \<Rightarrow> error + 'z event list" where
  "main A C w =
     (case epoch_loop A C 0 (init_state A w) of
        Inl e \<Rightarrow> Inl e
      | Inr s \<Rightarrow> Inr (out s @ [Done, Result (best_result s)]))"

subsection \<open>Notions the properties are stated with\<close>

text \<open>
  The learning-rate lines one epoch writes: one per training batch under the cosine
  schedule, all with the values Tcur and Ti hold when the epoch starts.
\<close>

definition lr_events :: "args \<Rightarrow> cyclic option \<Rightarrow> ('i, 't) batch list \<Rightarrow> 'z event list" where
  "lr_events A cy bs =
     (if args_lr_schedule A = ''cosine'' then
        (case cy of None \<Rightarrow> []
         | Some c \<Rightarrow> map (\<lambda>b. LearningRate (Tcur c) (epoch_progress b) (Ti c)) bs)
      else [])"

text \<open>
  The forward passes of an evaluation pass, as the specification words them: one per
  batch, in the order of the split, in evaluation mode, each in the world the one
  before left. The result is the list of the predictions and the last world.
\<close>

fun forward_passes ::
  "('w, 'i, 't, 'a, 'z) collab \<Rightarrow> 'w \<Rightarrow> ('i, 't) batch list \<Rightarrow> 't list \<times> 'w" where
  "forward_passes C w [] = ([], w)"
| "forward_passes C w (b # bs) =
     (case model C w (ids b) False of
        (p, w1) \<Rightarrow> (case forward_passes C w1 bs of (ps, w2) \<Rightarrow> (p # ps, w2)))"

text \<open>The batch losses of a split, given the predictions.\<close>

definition batch_losses ::
  "('w, 'i, 't, 'a, 'z) collab \<Rightarrow> 't list \<Rightarrow> ('i, 't) batch list \<Rightarrow> real list" where
  "batch_losses C ps bs = map (\<lambda>(p, b). loss_fn C p (targets b)) (zip ps bs)"

text \<open>
  The state at the head of the loop when \<^verbatim>\<open>epoch\<close> is \<open>n\<close>, if the run gets there:
  the loop body has run for the epochs \<open>0, \<dots>, n - 1\<close> without the early stop and
  without an exception.
\<close>

primrec loop_head ::
  "args \<Rightarrow> ('w, 'i, 't, 'a, 'z) collab \<Rightarrow> 'w \<Rightarrow> nat \<Rightarrow> ('w, 'z) run_state option" where
  "loop_head A C w 0 = Some (init_state A w)"
| "loop_head A C w (Suc n) =
     (case loop_head A C w n of
        None \<Rightarrow> None
      | Some s \<Rightarrow>
          if int n < args_epochs A \<and> \<not> tolerance s > args_tolerance A then
            (case epoch_body A C (int n) s of Inl e \<Rightarrow> None | Inr s1 \<Rightarrow> Some s1)
          else None)"

text \<open>The kinds of lines a run writes.\<close>

fun is_train_record :: "'z event \<Rightarrow> bool" where
  "is_train_record (TrainRecord e l) = True"
| "is_train_record _ = False"

fun is_eval_record :: "'z event \<Rightarrow> bool" where
  "is_eval_record (EvalRecord e l vm tm t) = True"
| "is_eval_record _ = False"

text \<open>An evaluation record of an epoch later than \<open>k\<close>.\<close>

fun eval_after :: "int \<Rightarrow> 'z event \<Rightarrow> bool" where
  "eval_after k (EvalRecord e l vm tm t) = (k < e)"
| "eval_after k _ = False"

fun is_learning_rate :: "'z event \<Rightarrow> bool" where
  "is_learning_rate (LearningRate c p T) = True"
| "is_learning_rate _ = False"

text \<open>
  The evaluation rounds written since the stored best result was taken, or all of
  them while there is none.
\<close>

definition rounds_since_best :: "('w, 'z) run_state \<Rightarrow> 'z event list" where
  "rounds_since_best s =
     (case best_result s of
        None \<Rightarrow> filter is_eval_record (out s)
      | Some snap \<Rightarrow> filter (eval_after (snap_epoch snap)) (out s))"

text \<open>The variables Ti, mult and Tcur after the bookkeeping block has run \<open>n\<close> times.\<close>

primrec cyc_after :: "args \<Rightarrow> nat \<Rightarrow> error + cyclic option" where
  "cyc_after A 0 = Inr (cyc (init_state A () :: (unit, unit) run_state))"
| "cyc_after A (Suc n) =
     (case cyc_after A n of Inl e \<Rightarrow> Inl e | Inr cy \<Rightarrow> update_cosine A cy)"

text \<open>The bookkeeping at the end of epoch \<open>n\<close> (counted from 0) takes the restart branch.\<close>

definition restart_at :: "args \<Rightarrow> nat \<Rightarrow> bool" where
  "restart_at A n =
     (case cyc_after A n of
        Inr (Some c) \<Rightarrow>
          args_lr_schedule A = ''cosine'' \<and> Ti c \<noteq> 0 \<and> Tcur c mod Ti c = 0 \<and> Tcur c > 0
      | _ \<Rightarrow> False)"

text \<open>The first epoch (counted from 0) whose batches see the period length \<open>2 ^ k\<close>.\<close>

definition period_start :: "nat \<Rightarrow> nat" where
  "period_start k = 2 ^ k + k - 1"

text \<open>
  What holds of the variables of the cosine schedule at every loop head; without the
  cosine schedule they are unbound.
\<close>

definition cyc_ok :: "args \<Rightarrow> cyclic option \<Rightarrow> bool" where
  "cyc_ok A cy =
     (if args_lr_schedule A = ''cosine''
      then (case cy of None \<Rightarrow> False
            | Some c \<Rightarrow> mult c = 2 \<and> 1 \<le> Ti c \<and> 0 \<le> Tcur c \<and> Tcur c \<le> Ti c)
      else cy = None)"

text \<open>
  The range of the period position as the specification words it: a learning rate is
  computed with Tcur in the half-open interval from 0 to Ti.
\<close>

fun within_period :: "'z event \<Rightarrow> bool" where
  "within_period (LearningRate c p T) = (0 \<le> c \<and> c < T)"
| "within_period _ = True"

text \<open>The same with the closed interval.\<close>

fun within_closed_period :: "'z event \<Rightarrow> bool" where
  "within_closed_period (LearningRate c p T) = (0 \<le> c \<and> c \<le> T)"
| "within_closed_period _ = True"

text \<open>Whether a round with this accuracy and loss beats the initial values 0 and 100000.\<close>

definition beats_sentinel :: "real \<Rightarrow> real \<Rightarrow> bool" where
  "beats_sentinel acc loss \<longleftrightarrow> acc > 0 \<or> (acc = 0 \<and> loss < 100000)"

text \<open>
  The stored best values agree with the stored snapshot, the snapshot is a round of
  the run, and no round of the run beats it.
\<close>

definition best_inv :: "('w, 'z) run_state \<Rightarrow> bool" where
  "best_inv s \<longleftrightarrow>
     (case best_result s of
        None \<Rightarrow> best_val_acc s = 0 \<and> best_val_loss s = 100000
      | Some snap \<Rightarrow>
          best_val_acc s = accuracy (snap_val_metric snap) \<and>
          best_val_loss s = snap_val_loss snap \<and>
          beats_sentinel (best_val_acc s) (best_val_loss s) \<and>
          EvalRecord (snap_epoch snap) (snap_val_loss snap) (snap_val_metric snap)
            (snap_test_metric snap) 0 \<in> set (out s)) \<and>
     (\<forall>e l vm tm t. EvalRecord e l vm tm t \<in> set (out s) \<longrightarrow> \<not> improves (accuracy vm) l s)"

subsection \<open>A small problem to run the driver on\<close>

text \<open>
  The world is the number of gradient steps taken so far. Every split has
  \<open>size_of mode\<close> batches, the model predicts the step count and leaves the world
  as it is, the loss and the accuracy are read off the prediction, and floats are
  added and divided without rounding.
\<close>

definition demo_collab ::
  "(nat \<Rightarrow> real) \<Rightarrow> (nat \<Rightarrow> real) \<Rightarrow> (string \<Rightarrow> nat) \<Rightarrow> (nat, nat, nat, nat list, unit) collab" where
  "demo_collab acc_of loss_of size_of =
     \<lparr> iterate = (\<lambda>w mode shuffle n.
          map (\<lambda>k. \<lparr> ids = k, targets = 0, epoch_progress = of_nat k / of_nat (size_of mode) \<rparr>)
            [0..<size_of mode]),
       model = (\<lambda>w i train. (w, w)),
       model_train = (\<lambda>w. w),
       model_eval = (\<lambda>w. w),
       loss_fn = (\<lambda>p t. loss_of p),
       metric_fn = (\<lambda>a p. \<lparr> accuracy = acc_of (hd p) \<rparr>),
       to_numpy = (\<lambda>t. [t]),
       vstack = concat,
       lr_scheduler = (\<lambda>p e. 0),
       set_lr = (\<lambda>w lr. w),
       backward_step = (\<lambda>w i t. Suc w),
       float_add = (+),
       float_div = (/) \<rparr>"

definition demo_args :: "string \<Rightarrow> int \<Rightarrow> int \<Rightarrow> int \<Rightarrow> args" where
  "demo_args sched n t li =
     \<lparr> args_batch_size = 4, args_epochs = n, args_lr_schedule = sched,
       args_tolerance = t, args_log_interval = li \<rparr>"

text \<open>Accuracies 0.5, 0.6, 0.6, 0.6 and losses 1.0, 0.8, 0.8, 0.9 after 1, 2, 3, 4 steps.\<close>

definition demo_acc :: "nat \<Rightarrow> real" where
  "demo_acc n = (if n \<le> 1 then 1 / 2 else 3 / 5)"

definition demo_loss :: "nat \<Rightarrow> real" where
  "demo_loss n = (if n \<le> 1 then 1 else if n \<le> 3 then 4 / 5 else 9 / 10)"

definition demo_size :: "string \<Rightarrow> nat" where
  "demo_size m = 1"

definition demo :: "(nat, nat, nat, nat list, unit) collab" where
  "demo = demo_collab demo_acc demo_loss demo_size"

text \<open>A problem whose every round has the same accuracy and the same loss.\<close>

definition demo_const :: "real \<Rightarrow> real \<Rightarrow> (nat, nat, nat, nat list, unit) collab" where
  "demo_const a l = demo_collab (\<lambda>n. a) (\<lambda>n. l) demo_size"

text \<open>A state whose best round so far has accuracy 0.80 and loss 0.50.\<close>

definition demo_state :: "(nat, unit) run_state" where
  "demo_state =
     \<lparr> world = 0, tolerance = 3, best_val_loss = 1 / 2, best_val_acc = 4 / 5,
       best_result = None, cyc = None, out = [] \<rparr>"

section \<open>Properties\<close>

subsection \<open>The evaluation pass and the loop body\<close>

lemma evaluate_loop_closed:
  "evaluate_loop C bs (w, l, ps, as) =
     (case forward_passes C w bs of
        (qs, w') \<Rightarrow>
          (w', foldl (float_add C) l (batch_losses C qs bs),
           ps @ map (to_numpy C) qs,
           as @ map (\<lambda>b. to_numpy C (targets b)) bs))"
proof (induction bs arbitrary: w l ps as)
  case Nil
  show ?case by (simp add: batch_losses_def)
next
  case (Cons b bs)
  obtain p w1 where m: "model C w (ids b) False = (p, w1)"
    by (cases "model C w (ids b) False")
  obtain qs w2 where f: "forward_passes C w1 bs = (qs, w2)"
    by (cases "forward_passes C w1 bs")
  show ?case
    by (simp add: m f Cons.IH batch_losses_def)
qed

lemma forward_passes_length: "length (fst (forward_passes C w bs)) = length bs"
proof (induction bs arbitrary: w)
  case Nil
  show ?case by simp
next
  case (Cons b bs)
  obtain p w1 where m: "model C w (ids b) False = (p, w1)"
    by (cases "model C w (ids b) False")
  obtain qs w2 where f: "forward_passes C w1 bs = (qs, w2)"
    by (cases "forward_passes C w1 bs")
  from Cons.IH [of w1] f show ?case
    by (simp add: m)
qed

lemma evaluate_closed:
  "evaluate C w n mode =
     (if mode \<noteq> ''val'' \<and> mode \<noteq> ''test'' then Inl AssertionError
      else if iterate C w mode False n = [] then Inl ValueError
      else
        (case forward_passes C w (iterate C w mode False n) of
           (ps, w') \<Rightarrow>
             Inr (foldl (float_add C) 0 (batch_losses C ps (iterate C w mode False n)),
                  metric_fn C
                    (vstack C (map (\<lambda>b. to_numpy C (targets b)) (iterate C w mode False n)))
                    (vstack C (map (to_numpy C) ps)),
                  w')))"
proof -
  obtain ps w' where f: "forward_passes C w (iterate C w mode False n) = (ps, w')"
    by (cases "forward_passes C w (iterate C w mode False n)")
  from forward_passes_length [of C w "iterate C w mode False n"] f
  have "ps = [] \<longleftrightarrow> iterate C w mode False n = []"
    by auto
  then show ?thesis
    unfolding evaluate_def evaluate_loop_closed np_vstack_def f
    by auto
qed

text \<open>An evaluation pass reads nothing of the gradient step and of the learning rate.\<close>

lemma forward_passes_no_step:
  "forward_passes (C\<lparr> backward_step := g, set_lr := h \<rparr>) w bs = forward_passes C w bs"
  by (induction bs arbitrary: w) simp_all

lemma evaluate_no_step:
  "evaluate (C\<lparr> backward_step := g, set_lr := h \<rparr>) w n mode = evaluate C w n mode"
  unfolding evaluate_closed forward_passes_no_step batch_losses_def by simp

text \<open>Forward passes that leave the world alone make a pass that leaves it alone.\<close>

lemma forward_passes_pure:
  "(\<forall>v i. snd (model C v i False) = v) \<Longrightarrow> snd (forward_passes C w bs) = w"
proof (induction bs arbitrary: w)
  case Nil
  then show ?case by simp
next
  case (Cons b bs)
  obtain p w1 where m: "model C w (ids b) False = (p, w1)"
    by (cases "model C w (ids b) False")
  from Cons.prems have "snd (model C w (ids b) False) = w"
    by blast
  with m have w1: "w1 = w"
    by simp
  obtain ps w2 where f: "forward_passes C w bs = (ps, w2)"
    by (cases "forward_passes C w bs")
  from Cons.IH [OF Cons.prems, of w] f have "w2 = w"
    by simp
  with m w1 f show ?case
    by simp
qed

lemma evaluate_pure:
  assumes "\<forall>v i. snd (model C v i False) = v"
    and "evaluate C w n mode = Inr (l, m, w')"
  shows "w' = w"
proof -
  obtain ps w2 where f: "forward_passes C w (iterate C w mode False n) = (ps, w2)"
    by (cases "forward_passes C w (iterate C w mode False n)")
  from forward_passes_pure [OF assms(1), of w "iterate C w mode False n"] f have "w2 = w"
    by simp
  with assms(2) f show ?thesis
    unfolding evaluate_closed by (simp split: if_splits)
qed

lemma train_batches_log:
  "train_batches A C e cy bs (w, trl, lg) = Inr (w', trl', lg') \<Longrightarrow> lg' = lg @ lr_events A cy bs"
proof (induction bs arbitrary: w trl lg)
  case Nil
  then show ?case by (simp add: lr_events_def split: option.splits)
next
  case (Cons b bs)
  show ?case
  proof (cases "args_lr_schedule A = ''cosine''")
    case True
    with Cons.prems obtain c where c: "cy = Some c"
      by (cases cy) auto
    from Cons.prems True c
    obtain w2 trl2 where
      "train_batches A C e cy bs (w2, trl2, lg @ [LearningRate (Tcur c) (epoch_progress b) (Ti c)])
         = Inr (w', trl', lg')"
      by (auto simp: Let_def split: prod.splits)
    from Cons.IH [OF this] True c show ?thesis
      by (simp add: lr_events_def)
  next
    case False
    with Cons.prems obtain w2 trl2 where
      "train_batches A C e cy bs (w2, trl2, lg) = Inr (w', trl', lg')"
      by (auto simp: Let_def split: prod.splits if_splits)
    from Cons.IH [OF this] False show ?thesis
      by (simp add: lr_events_def)
  qed
qed

lemma train_batches_total:
  assumes "if args_lr_schedule A = ''cosine'' then cy \<noteq> None else args_epochs A \<noteq> 0"
  shows "\<exists>r. train_batches A C e cy bs (w, trl, lg) = Inr r"
  using assms
  by (induction bs arbitrary: w trl lg) (auto simp: Let_def split: prod.splits if_splits)

lemma train_epoch_Inr:
  assumes "train_epoch A C e s = Inr s1"
  shows "tolerance s1 = tolerance s" "best_val_acc s1 = best_val_acc s"
    "best_val_loss s1 = best_val_loss s" "best_result s1 = best_result s"
    "update_cosine A (cyc s) = Inr (cyc s1)"
    "\<exists>trl. out s1 = out s @ lr_events A (cyc s)
        (iterate C (model_train C (world s)) ''train'' True (args_batch_size A)) @ [TrainRecord e trl]"
  using assms
  by (auto simp: train_epoch_def Let_def dest: train_batches_log split: sum.splits prod.splits)

lemma evaluation_round_eq:
  assumes "evaluate C (model_eval C (world s)) (args_batch_size A) ''val'' = Inr (loss, vm, w1)"
    and "evaluate C w1 (args_batch_size A) ''test'' = Inr (tloss, tm, w2)"
  shows "evaluation_round A C e s =
     Inr (if improves (accuracy vm) loss s
          then s\<lparr> tolerance := 0, best_val_loss := loss, best_val_acc := accuracy vm,
               best_result := Some \<lparr> snap_epoch = e, snap_val_loss = loss,
                 snap_val_metric = vm, snap_test_metric = tm \<rparr>,
               world := w2,
               out := out s @ [EvalRecord e loss vm tm 0] \<rparr>
          else s\<lparr> tolerance := tolerance s + 1, world := w2,
               out := out s @ [EvalRecord e loss vm tm (tolerance s + 1)] \<rparr>)"
  using assms by (simp add: evaluation_round_def Let_def)

lemma evaluation_round_passes:
  assumes "evaluation_round A C e s = Inr s'"
  shows "\<exists>loss vm w1 tloss tm w2.
    evaluate C (model_eval C (world s)) (args_batch_size A) ''val'' = Inr (loss, vm, w1) \<and>
    evaluate C w1 (args_batch_size A) ''test'' = Inr (tloss, tm, w2)"
proof (cases "evaluate C (model_eval C (world s)) (args_batch_size A) ''val''")
  case (Inl x)
  with assms show ?thesis by (simp add: evaluation_round_def)
next
  case (Inr r)
  obtain loss vm w1 where r: "r = (loss, vm, w1)" by (cases r)
  show ?thesis
  proof (cases "evaluate C w1 (args_batch_size A) ''test''")
    case (Inl x)
    with assms Inr r show ?thesis by (simp add: evaluation_round_def)
  next
    case t: (Inr q)
    obtain tloss tm w2 where "q = (tloss, tm, w2)" by (cases q)
    with Inr r t show ?thesis by blast
  qed
qed

lemma epoch_body_Inr:
  assumes "epoch_body A C e s = Inr s'"
  shows "\<exists>s1. train_epoch A C e s = Inr s1 \<and> args_log_interval A \<noteq> 0 \<and>
    (if e mod args_log_interval A = 0 then evaluation_round A C e s1 = Inr s' else s' = s1)"
proof (cases "train_epoch A C e s")
  case (Inl x)
  with assms show ?thesis by (simp add: epoch_body_def)
next
  case (Inr s1)
  with assms have nz: "args_log_interval A \<noteq> 0"
    by (simp add: epoch_body_def split: if_splits)
  from assms Inr nz show ?thesis
    by (simp add: epoch_body_def split: if_splits)
qed

subsection \<open>The states at the head of the loop\<close>

lemma loop_head_Suc:
  assumes "loop_head A C w (Suc n) = Some s1"
  obtains s where "loop_head A C w n = Some s" "int n < args_epochs A"
    "tolerance s \<le> args_tolerance A" "epoch_body A C (int n) s = Inr s1"
proof (cases "loop_head A C w n")
  case None
  with assms show thesis by simp
next
  case (Some s)
  with assms have c: "int n < args_epochs A" "tolerance s \<le> args_tolerance A"
    by (simp_all split: if_splits)
  with assms Some have "epoch_body A C (int n) s = Inr s1"
    by (cases "epoch_body A C (int n) s") simp_all
  with Some c that show thesis by blast
qed

lemma loop_head_induct [consumes 1, case_names start step]:
  assumes "loop_head A C w n = Some s"
    and "P 0 (init_state A w)"
    and "\<And>n s s1. loop_head A C w n = Some s \<Longrightarrow> P n s \<Longrightarrow> int n < args_epochs A \<Longrightarrow>
           tolerance s \<le> args_tolerance A \<Longrightarrow> epoch_body A C (int n) s = Inr s1 \<Longrightarrow> P (Suc n) s1"
  shows "P n s"
  using assms(1)
proof (induction n arbitrary: s)
  case 0
  then show ?case using assms(2) by simp
next
  case (Suc n)
  from Suc.prems obtain s0 where s0: "loop_head A C w n = Some s0" "int n < args_epochs A"
    "tolerance s0 \<le> args_tolerance A" "epoch_body A C (int n) s0 = Inr s"
    by (rule loop_head_Suc)
  from assms(3) [OF s0(1) Suc.IH [OF s0(1)] s0(2-4)] show ?case .
qed

lemma epoch_loop_head:
  assumes "epoch_loop A C e s = Inr s'" and "loop_head A C w n = Some s" and "e = int n"
  shows "\<exists>m. loop_head A C w m = Some s' \<and> n \<le> m \<and>
           (args_epochs A \<le> int m \<or> tolerance s' > args_tolerance A)"
  using assms
proof (induction A C e s arbitrary: n rule: epoch_loop.induct)
  case (1 A C epoch s)
  note unfold = epoch_loop.simps [of A C epoch s]
  show ?case
  proof (cases "epoch < args_epochs A \<and> \<not> tolerance s > args_tolerance A")
    case False
    then have "epoch_loop A C epoch s = Inr s"
      by (subst unfold) auto
    with "1.prems"(1) have "s' = s" by simp
    with False "1.prems"(2,3) show ?thesis
      by (intro exI [of _ n]) auto
  next
    case True
    then have "epoch_loop A C epoch s =
      (case epoch_body A C epoch s of Inl e \<Rightarrow> Inl e | Inr s1 \<Rightarrow> epoch_loop A C (epoch + 1) s1)"
      by (subst unfold) simp
    with "1.prems"(1) obtain s1 where s1: "epoch_body A C epoch s = Inr s1"
      "epoch_loop A C (epoch + 1) s1 = Inr s'"
      by (cases "epoch_body A C epoch s") auto
    from True s1(1) "1.prems"(2,3) have h: "loop_head A C w (Suc n) = Some s1"
      by simp
    have e: "epoch + 1 = int (Suc n)"
      using "1.prems"(3) by simp
    from True have c1: "epoch < args_epochs A" and c2: "\<not> args_tolerance A < tolerance s"
      by simp_all
    from "1.IH" [OF c1 c2 s1(1) s1(2) h e]
    obtain m where m: "loop_head A C w m = Some s'" "Suc n \<le> m"
      "args_epochs A \<le> int m \<or> tolerance s' > args_tolerance A"
      by blast
    show ?thesis
    proof (intro exI [of _ m] conjI)
      show "loop_head A C w m = Some s'" by (rule m(1))
      show "n \<le> m" using m(2) by simp
      show "args_epochs A \<le> int m \<or> tolerance s' > args_tolerance A" by (rule m(3))
    qed
  qed
qed

lemma main_Inr:
  assumes "main A C w = Inr lg"
  obtains s m where "epoch_loop A C 0 (init_state A w) = Inr s" "loop_head A C w m = Some s"
    "lg = out s @ [Done, Result (best_result s)]"
    "args_epochs A \<le> int m \<or> tolerance s > args_tolerance A"
proof -
  from assms obtain s where s: "epoch_loop A C 0 (init_state A w) = Inr s"
    "lg = out s @ [Done, Result (best_result s)]"
    by (auto simp: main_def split: sum.splits)
  from epoch_loop_head [OF s(1), of w 0] obtain m where
    "loop_head A C w m = Some s" "args_epochs A \<le> int m \<or> tolerance s > args_tolerance A"
    by auto
  with s that show thesis by blast
qed

lemma evaluation_round_fields:
  assumes "evaluation_round A C e s = Inr s'"
  shows "\<exists>loss vm tm. out s' = out s @ [EvalRecord e loss vm tm (tolerance s')] \<and>
     cyc s' = cyc s \<and>
     (if improves (accuracy vm) loss s
      then tolerance s' = 0 \<and> best_val_acc s' = accuracy vm \<and> best_val_loss s' = loss \<and>
        best_result s' = Some \<lparr> snap_epoch = e, snap_val_loss = loss,
          snap_val_metric = vm, snap_test_metric = tm \<rparr>
      else tolerance s' = tolerance s + 1 \<and> best_val_acc s' = best_val_acc s \<and>
        best_val_loss s' = best_val_loss s \<and> best_result s' = best_result s)"
proof -
  from evaluation_round_passes [OF assms] obtain loss vm w1 tloss tm w2 where
    v: "evaluate C (model_eval C (world s)) (args_batch_size A) ''val'' = Inr (loss, vm, w1)" and
    t: "evaluate C w1 (args_batch_size A) ''test'' = Inr (tloss, tm, w2)"
    by blast
  from evaluation_round_eq [OF v t, of e] assms
  have "s' = (if improves (accuracy vm) loss s
          then s\<lparr> tolerance := 0, best_val_loss := loss, best_val_acc := accuracy vm,
               best_result := Some \<lparr> snap_epoch = e, snap_val_loss = loss,
                 snap_val_metric = vm, snap_test_metric = tm \<rparr>,
               world := w2,
               out := out s @ [EvalRecord e loss vm tm 0] \<rparr>
          else s\<lparr> tolerance := tolerance s + 1, world := w2,
               out := out s @ [EvalRecord e loss vm tm (tolerance s + 1)] \<rparr>)"
    by simp
  then show ?thesis
    by (intro exI [of _ loss] exI [of _ vm] exI [of _ tm]) simp
qed

text \<open>What one pass through the loop body does to the state.\<close>

lemma epoch_body_cases:
  assumes "epoch_body A C e s = Inr s'"
  shows "\<exists>trl.
     update_cosine A (cyc s) = Inr (cyc s') \<and> args_log_interval A \<noteq> 0 \<and>
     (if e mod args_log_interval A = 0 then
        (\<exists>loss vm tm. out s' = (out s @ lr_events A (cyc s)
            (iterate C (model_train C (world s)) ''train'' True (args_batch_size A))
            @ [TrainRecord e trl]) @ [EvalRecord e loss vm tm (tolerance s')] \<and>
          (if improves (accuracy vm) loss s
           then tolerance s' = 0 \<and> best_val_acc s' = accuracy vm \<and> best_val_loss s' = loss \<and>
             best_result s' = Some \<lparr> snap_epoch = e, snap_val_loss = loss,
               snap_val_metric = vm, snap_test_metric = tm \<rparr>
           else tolerance s' = tolerance s + 1 \<and> best_val_acc s' = best_val_acc s \<and>
             best_val_loss s' = best_val_loss s \<and> best_result s' = best_result s))
      else out s' = out s @ lr_events A (cyc s)
            (iterate C (model_train C (world s)) ''train'' True (args_batch_size A))
            @ [TrainRecord e trl] \<and>
        tolerance s' = tolerance s \<and> best_val_acc s' = best_val_acc s \<and>
        best_val_loss s' = best_val_loss s \<and> best_result s' = best_result s)"
proof -
  from epoch_body_Inr [OF assms] obtain s1 where
    s1: "train_epoch A C e s = Inr s1" and nz: "args_log_interval A \<noteq> 0" and
    r: "if e mod args_log_interval A = 0 then evaluation_round A C e s1 = Inr s' else s' = s1"
    by blast
  note t = train_epoch_Inr [OF s1]
  from t(6) obtain trl where pre: "out s1 = out s @ lr_events A (cyc s)
        (iterate C (model_train C (world s)) ''train'' True (args_batch_size A)) @ [TrainRecord e trl]"
    by blast
  have imp: "improves a l s1 = improves a l s" for a l
    by (simp add: improves_def t)
  show ?thesis
  proof (cases "e mod args_log_interval A = 0")
    case False
    with r have "s' = s1" by simp
    with False t pre nz show ?thesis
      by (intro exI [of _ trl]) simp
  next
    case True
    with r have er: "evaluation_round A C e s1 = Inr s'" by simp
    from evaluation_round_fields [OF er] obtain loss vm tm where
      f: "out s' = out s1 @ [EvalRecord e loss vm tm (tolerance s')]" "cyc s' = cyc s1"
        "if improves (accuracy vm) loss s1
         then tolerance s' = 0 \<and> best_val_acc s' = accuracy vm \<and> best_val_loss s' = loss \<and>
           best_result s' = Some \<lparr> snap_epoch = e, snap_val_loss = loss,
             snap_val_metric = vm, snap_test_metric = tm \<rparr>
         else tolerance s' = tolerance s1 + 1 \<and> best_val_acc s' = best_val_acc s1 \<and>
           best_val_loss s' = best_val_loss s1 \<and> best_result s' = best_result s1"
      by blast
    have g: "\<exists>loss vm tm. out s' = (out s @ lr_events A (cyc s)
            (iterate C (model_train C (world s)) ''train'' True (args_batch_size A))
            @ [TrainRecord e trl]) @ [EvalRecord e loss vm tm (tolerance s')] \<and>
          (if improves (accuracy vm) loss s
           then tolerance s' = 0 \<and> best_val_acc s' = accuracy vm \<and> best_val_loss s' = loss \<and>
             best_result s' = Some \<lparr> snap_epoch = e, snap_val_loss = loss,
               snap_val_metric = vm, snap_test_metric = tm \<rparr>
           else tolerance s' = tolerance s + 1 \<and> best_val_acc s' = best_val_acc s \<and>
             best_val_loss s' = best_val_loss s \<and> best_result s' = best_result s)"
      using f(1,3) unfolding imp pre t(1-4)
      by (intro exI [of _ loss] exI [of _ vm] exI [of _ tm]) simp
    from True g t(5) f(2) nz show ?thesis
      by (intro exI [of _ trl]) simp
  qed
qed

lemma lr_events_None [simp]: "lr_events A None bs = []"
  by (simp add: lr_events_def)

lemma lr_events_Some:
  "lr_events A (Some c) bs =
     (if args_lr_schedule A = ''cosine''
      then map (\<lambda>b. LearningRate (Tcur c) (epoch_progress b) (Ti c)) bs else [])"
  by (simp add: lr_events_def)

lemma not_lr_filter:
  assumes "\<And>c p T. \<not> P (LearningRate c p T)"
  shows "filter P (lr_events A cy bs) = []"
proof (cases cy)
  case None
  show ?thesis unfolding None by simp
next
  case (Some c)
  show ?thesis unfolding Some lr_events_Some
    by (auto simp: filter_empty_conv assms)
qed

lemma lr_events_filter [simp]:
  "filter is_train_record (lr_events A cy bs) = []"
  "filter is_eval_record (lr_events A cy bs) = []"
  "filter (eval_after k) (lr_events A cy bs) = []"
  by (simp_all add: not_lr_filter)

lemma lr_events_set:
  assumes "ev \<in> set (lr_events A cy bs)"
  shows "args_lr_schedule A = ''cosine'' \<and>
    (case cy of None \<Rightarrow> False
     | Some c \<Rightarrow> \<exists>p. ev = LearningRate (Tcur c) p (Ti c))"
proof (cases cy)
  case None
  with assms show ?thesis by simp
next
  case (Some c)
  from assms show ?thesis unfolding Some lr_events_Some
    by (auto split: if_splits)
qed

lemma loop_head_tolerance:
  assumes "loop_head A C w n = Some s"
  shows "0 \<le> tolerance s \<and> (tolerance s = 0 \<or> tolerance s \<le> args_tolerance A + 1)"
  using assms
proof (induction rule: loop_head_induct)
  case start
  show ?case by (simp add: init_state_def)
next
  case (step n s s1)
  from epoch_body_cases [OF step.hyps(4)] step.IH step.hyps(3) show ?case
    by (auto split: if_splits)
qed

lemma loop_head_epochs:
  assumes "loop_head A C w n = Some s"
  shows "length (filter is_train_record (out s)) = n \<and> int n \<le> max 0 (args_epochs A)"
  using assms
proof (induction rule: loop_head_induct)
  case start
  show ?case by (simp add: init_state_def)
next
  case (step n s s1)
  from epoch_body_cases [OF step.hyps(4)] step.IH step.hyps(2) show ?case
    by (auto split: if_splits)
qed

lemma eval_after_none:
  "(\<And>e l vm tm t. EvalRecord e l vm tm t \<in> set xs \<Longrightarrow> e \<le> k) \<Longrightarrow> filter (eval_after k) xs = []"
  unfolding filter_empty_conv
proof
  fix x assume a: "\<And>e l vm tm t. EvalRecord e l vm tm t \<in> set xs \<Longrightarrow> e \<le> k" and "x \<in> set xs"
  then show "\<not> eval_after k x"
    by (cases x) (auto dest!: a)
qed

lemma loop_head_rounds:
  assumes "loop_head A C w n = Some s"
  shows "(\<forall>e l vm tm t. EvalRecord e l vm tm t \<in> set (out s) \<longrightarrow> e < int n) \<and>
    (\<forall>snap. best_result s = Some snap \<longrightarrow> snap_epoch snap < int n) \<and>
    tolerance s = int (length (rounds_since_best s))"
  using assms
proof (induction rule: loop_head_induct)
  case start
  show ?case by (simp add: init_state_def rounds_since_best_def)
next
  case (step n s s1)
  from step.IH have old: "\<And>e l vm tm t. EvalRecord e l vm tm t \<in> set (out s) \<Longrightarrow> e < int n"
    and best: "\<And>snap. best_result s = Some snap \<Longrightarrow> snap_epoch snap < int n"
    and tol: "tolerance s = int (length (rounds_since_best s))"
    by blast+
  from epoch_body_cases [OF step.hyps(4)] obtain trl where
    c0: "if int n mod args_log_interval A = 0 then
        (\<exists>loss vm tm. out s1 = (out s @ lr_events A (cyc s)
            (iterate C (model_train C (world s)) ''train'' True (args_batch_size A))
            @ [TrainRecord (int n) trl]) @ [EvalRecord (int n) loss vm tm (tolerance s1)] \<and>
          (if improves (accuracy vm) loss s
           then tolerance s1 = 0 \<and> best_val_acc s1 = accuracy vm \<and> best_val_loss s1 = loss \<and>
             best_result s1 = Some \<lparr> snap_epoch = int n, snap_val_loss = loss,
               snap_val_metric = vm, snap_test_metric = tm \<rparr>
           else tolerance s1 = tolerance s + 1 \<and> best_val_acc s1 = best_val_acc s \<and>
             best_val_loss s1 = best_val_loss s \<and> best_result s1 = best_result s))
      else out s1 = out s @ lr_events A (cyc s)
            (iterate C (model_train C (world s)) ''train'' True (args_batch_size A))
            @ [TrainRecord (int n) trl] \<and>
        tolerance s1 = tolerance s \<and> best_val_acc s1 = best_val_acc s \<and>
        best_val_loss s1 = best_val_loss s \<and> best_result s1 = best_result s"
    by blast
  define pre where "pre = out s @ lr_events A (cyc s)
            (iterate C (model_train C (world s)) ''train'' True (args_batch_size A))
            @ [TrainRecord (int n) trl]"
  note c = c0 [folded pre_def]
  note pre = pre_def
  have pre_old: "EvalRecord e l vm tm t \<in> set pre \<Longrightarrow> e < int n" for e l vm tm t
    using old [of e l vm tm t] by (auto simp: pre dest!: lr_events_set split: option.splits)
  have pre_eval: "filter is_eval_record pre = filter is_eval_record (out s)"
    and pre_after: "filter (eval_after k) pre = filter (eval_after k) (out s)" for k
    by (simp_all add: pre)
  show ?case
  proof (cases "int n mod args_log_interval A = 0")
    case False
    with c have "out s1 = pre" "tolerance s1 = tolerance s" "best_result s1 = best_result s"
      by simp_all
    with tol pre_eval pre_after have "tolerance s1 = int (length (rounds_since_best s1))"
      by (simp add: rounds_since_best_def split: option.splits)
    moreover have "\<forall>e l vm tm t. EvalRecord e l vm tm t \<in> set (out s1) \<longrightarrow> e < int (Suc n)"
      using \<open>out s1 = pre\<close> pre_old by fastforce
    moreover have "\<forall>snap. best_result s1 = Some snap \<longrightarrow> snap_epoch snap < int (Suc n)"
    proof (intro allI impI)
      fix snap assume "best_result s1 = Some snap"
      with \<open>best_result s1 = best_result s\<close> have "best_result s = Some snap" by simp
      from best [OF this] show "snap_epoch snap < int (Suc n)" by simp
    qed
    ultimately show ?thesis by blast
  next
    case True
    with c obtain loss vm tm where
      o: "out s1 = pre @ [EvalRecord (int n) loss vm tm (tolerance s1)]" and
      i: "if improves (accuracy vm) loss s
           then tolerance s1 = 0 \<and>
             best_result s1 = Some \<lparr> snap_epoch = int n, snap_val_loss = loss,
               snap_val_metric = vm, snap_test_metric = tm \<rparr>
           else tolerance s1 = tolerance s + 1 \<and> best_result s1 = best_result s"
      by (auto split: if_splits)
    have r1: "\<forall>e l vm tm t. EvalRecord e l vm tm t \<in> set (out s1) \<longrightarrow> e < int (Suc n)"
      using o pre_old by fastforce
    have r2: "\<forall>snap. best_result s1 = Some snap \<longrightarrow> snap_epoch snap < int (Suc n)"
    proof (intro allI impI)
      fix snap assume a: "best_result s1 = Some snap"
      show "snap_epoch snap < int (Suc n)"
      proof (cases "improves (accuracy vm) loss s")
        case True
        with i a have "snap_epoch snap = int n" by auto
        then show ?thesis by simp
      next
        case False
        with i a have "best_result s = Some snap" by simp
        from best [OF this] show ?thesis by simp
      qed
    qed
    have r3: "tolerance s1 = int (length (rounds_since_best s1))"
    proof (cases "improves (accuracy vm) loss s")
      case True
      with i have "tolerance s1 = 0" "best_result s1 = Some \<lparr> snap_epoch = int n,
         snap_val_loss = loss, snap_val_metric = vm, snap_test_metric = tm \<rparr>"
        by simp_all
      moreover have "filter (eval_after (int n)) pre = []"
        by (rule eval_after_none) (use pre_old in fastforce)
      ultimately show ?thesis
        by (simp add: rounds_since_best_def o)
    next
      case False
      with i have j: "tolerance s1 = tolerance s + 1" "best_result s1 = best_result s"
        by simp_all
      show ?thesis
      proof (cases "best_result s")
        case None
        with j tol show ?thesis
          by (simp add: rounds_since_best_def o pre_eval)
      next
        case (Some snap)
        with j tol best [OF Some] show ?thesis
          by (simp add: rounds_since_best_def o pre_after)
      qed
    qed
    from r1 r2 r3 show ?thesis by blast
  qed
qed

subsection \<open>The cosine bookkeeping\<close>

lemma update_cosine_ok:
  assumes "cyc_ok A cy"
  shows "\<exists>cy'. update_cosine A cy = Inr cy' \<and> cyc_ok A cy'"
proof (cases "args_lr_schedule A = ''cosine''")
  case False
  with assms show ?thesis by (simp add: update_cosine_def cyc_ok_def)
next
  case True
  with assms obtain c where c: "cy = Some c" "mult c = 2" "1 \<le> Ti c" "0 \<le> Tcur c" "Tcur c \<le> Ti c"
    by (cases cy) (auto simp: cyc_ok_def)
  show ?thesis
  proof (cases "Tcur c mod Ti c = 0 \<and> Tcur c > 0")
    case r: True
    with True c show ?thesis
      by (simp add: update_cosine_def cyc_ok_def)
  next
    case False
    have "Tcur c \<noteq> Ti c"
    proof
      assume "Tcur c = Ti c"
      with c(3) have "Tcur c mod Ti c = 0 \<and> Tcur c > 0" by simp
      with False show False by simp
    qed
    with c(5) have "Tcur c + 1 \<le> Ti c" by simp
    with True c False show ?thesis
      by (simp add: update_cosine_def cyc_ok_def)
  qed
qed

lemma init_cyc_ok: "cyc_ok A (cyc (init_state A w))"
  by (simp add: cyc_ok_def init_state_def)

lemma epoch_body_cyc_ok:
  assumes "epoch_body A C e s = Inr s'" "cyc_ok A (cyc s)"
  shows "cyc_ok A (cyc s')"
  using epoch_body_cases [OF assms(1)] update_cosine_ok [OF assms(2)] by auto

lemma loop_head_cyc_ok:
  assumes "loop_head A C w n = Some s"
  shows "cyc_ok A (cyc s)"
  using assms
proof (induction rule: loop_head_induct)
  case start
  show ?case by (rule init_cyc_ok)
next
  case (step n s s1)
  from epoch_body_cyc_ok [OF step.hyps(4) step.IH] show ?case .
qed

lemma loop_head_cyc_after:
  assumes "loop_head A C w n = Some s"
  shows "cyc_after A n = Inr (cyc s)"
  using assms
proof (induction rule: loop_head_induct)
  case start
  show ?case by (simp add: init_state_def)
next
  case (step n s s1)
  from epoch_body_cases [OF step.hyps(4)] have "update_cosine A (cyc s) = Inr (cyc s1)"
    by blast
  with step.IH show ?case by simp
qed

lemma epoch_body_out:
  assumes "epoch_body A C e s = Inr s'"
  shows "\<exists>trl rest. out s' = out s @ lr_events A (cyc s)
            (iterate C (model_train C (world s)) ''train'' True (args_batch_size A))
            @ [TrainRecord e trl] @ rest \<and>
          (if e mod args_log_interval A = 0
           then \<exists>loss vm tm. rest = [EvalRecord e loss vm tm (tolerance s')]
           else rest = [])"
proof -
  from epoch_body_cases [OF assms] obtain trl where
    c: "if e mod args_log_interval A = 0 then
        (\<exists>loss vm tm. out s' = (out s @ lr_events A (cyc s)
            (iterate C (model_train C (world s)) ''train'' True (args_batch_size A))
            @ [TrainRecord e trl]) @ [EvalRecord e loss vm tm (tolerance s')])
      else out s' = out s @ lr_events A (cyc s)
            (iterate C (model_train C (world s)) ''train'' True (args_batch_size A))
            @ [TrainRecord e trl]"
    by (auto split: if_splits)
  show ?thesis
  proof (cases "e mod args_log_interval A = 0")
    case True
    with c obtain loss vm tm where "out s' = (out s @ lr_events A (cyc s)
            (iterate C (model_train C (world s)) ''train'' True (args_batch_size A))
            @ [TrainRecord e trl]) @ [EvalRecord e loss vm tm (tolerance s')]"
      by auto
    with True show ?thesis
      by (intro exI [of _ trl] exI [of _ "[EvalRecord e loss vm tm (tolerance s')]"]) simp
  next
    case False
    with c show ?thesis
      by (intro exI [of _ trl] exI [of _ "[]"]) simp
  qed
qed

lemma loop_head_learning_rates:
  assumes "loop_head A C w n = Some s"
  shows "\<forall>ev \<in> set (out s). within_closed_period ev"
  using assms
proof (induction rule: loop_head_induct)
  case start
  show ?case by (simp add: init_state_def)
next
  case (step n s s1)
  have ok: "cyc_ok A (cyc s)"
    by (rule loop_head_cyc_ok [OF step.hyps(1)])
  define bs where "bs = iterate C (model_train C (world s)) ''train'' True (args_batch_size A)"
  have lrs: "within_closed_period ev" if "ev \<in> set (lr_events A (cyc s) bs)" for ev
  proof (cases "cyc s")
    case None
    with that show ?thesis by simp
  next
    case (Some c)
    with lr_events_set [OF that] ok show ?thesis
      by (auto simp: cyc_ok_def)
  qed
  from epoch_body_out [OF step.hyps(4)] obtain trl rest where
    o: "out s1 = out s @ lr_events A (cyc s) bs @ [TrainRecord (int n) trl] @ rest" and
    r: "rest = [] \<or> (\<exists>loss vm tm. rest = [EvalRecord (int n) loss vm tm (tolerance s1)])"
    unfolding bs_def by (auto split: if_splits)
  from r have "\<forall>ev \<in> set rest. within_closed_period ev" by auto
  with step.IH lrs show ?case unfolding o by auto
qed

subsection \<open>The best result\<close>

lemma improves_trans:
  assumes "improves a l s'" "best_val_acc s' = a0" "best_val_loss s' = l0" "improves a0 l0 s"
  shows "improves a l s"
  using assms unfolding improves_def by auto

lemma loop_head_best:
  assumes "loop_head A C w n = Some s"
  shows "best_inv s"
  using assms
proof (induction rule: loop_head_induct)
  case start
  show ?case by (simp add: init_state_def best_inv_def)
next
  case (step n s s1)
  define bs where "bs = iterate C (model_train C (world s)) ''train'' True (args_batch_size A)"
  from epoch_body_cases [OF step.hyps(4)] obtain trl where
    c: "if int n mod args_log_interval A = 0 then
        (\<exists>loss vm tm. out s1 = (out s @ lr_events A (cyc s) bs
            @ [TrainRecord (int n) trl]) @ [EvalRecord (int n) loss vm tm (tolerance s1)] \<and>
          (if improves (accuracy vm) loss s
           then tolerance s1 = 0 \<and> best_val_acc s1 = accuracy vm \<and> best_val_loss s1 = loss \<and>
             best_result s1 = Some \<lparr> snap_epoch = int n, snap_val_loss = loss,
               snap_val_metric = vm, snap_test_metric = tm \<rparr>
           else tolerance s1 = tolerance s + 1 \<and> best_val_acc s1 = best_val_acc s \<and>
             best_val_loss s1 = best_val_loss s \<and> best_result s1 = best_result s))
      else out s1 = out s @ lr_events A (cyc s) bs @ [TrainRecord (int n) trl] \<and>
        tolerance s1 = tolerance s \<and> best_val_acc s1 = best_val_acc s \<and>
        best_val_loss s1 = best_val_loss s \<and> best_result s1 = best_result s"
    unfolding bs_def by blast
  define pre where "pre = out s @ lr_events A (cyc s) bs @ [TrainRecord (int n) trl]"
  have pre_eval: "EvalRecord e l vm tm t \<in> set pre \<longleftrightarrow> EvalRecord e l vm tm t \<in> set (out s)"
    for e l vm tm t
  proof (cases "cyc s")
    case None
    then show ?thesis by (auto simp: pre_def)
  next
    case (Some c)
    then show ?thesis by (auto simp: pre_def dest!: lr_events_set)
  qed
  from step.IH have "\<forall>e l vm tm t. EvalRecord e l vm tm t \<in> set (out s) \<longrightarrow>
      \<not> improves (accuracy vm) l s"
    unfolding best_inv_def by (rule conjunct2)
  then have old: "\<And>e l vm tm t. EvalRecord e l vm tm t \<in> set (out s) \<Longrightarrow>
      \<not> improves (accuracy vm) l s"
    by blast
  have sentinel: "best_val_acc s > 0 \<or> (best_val_acc s = 0 \<and> best_val_loss s \<le> 100000)"
    using step.IH by (auto simp: best_inv_def beats_sentinel_def split: option.splits)
  show ?case
  proof (cases "int n mod args_log_interval A = 0")
    case False
    with c have same: "out s1 = pre" "best_val_acc s1 = best_val_acc s"
      "best_val_loss s1 = best_val_loss s" "best_result s1 = best_result s"
      by (simp_all add: pre_def)
    have imp: "improves a l s1 = improves a l s" for a l
      by (simp add: improves_def same)
    from step.IH show ?thesis
      unfolding best_inv_def same imp pre_eval
      by (simp add: pre_eval split: option.splits)
  next
    case True
    with c obtain loss vm tm where
      o: "out s1 = pre @ [EvalRecord (int n) loss vm tm (tolerance s1)]" and
      i: "if improves (accuracy vm) loss s
           then tolerance s1 = 0 \<and> best_val_acc s1 = accuracy vm \<and> best_val_loss s1 = loss \<and>
             best_result s1 = Some \<lparr> snap_epoch = int n, snap_val_loss = loss,
               snap_val_metric = vm, snap_test_metric = tm \<rparr>
           else tolerance s1 = tolerance s + 1 \<and> best_val_acc s1 = best_val_acc s \<and>
             best_val_loss s1 = best_val_loss s \<and> best_result s1 = best_result s"
      unfolding pre_def by auto
    show ?thesis
    proof (cases "improves (accuracy vm) loss s")
      case False
      with i have same: "best_val_acc s1 = best_val_acc s"
        "best_val_loss s1 = best_val_loss s" "best_result s1 = best_result s"
        by simp_all
      have imp: "improves a l s1 = improves a l s" for a l
        by (simp add: improves_def same)
      from step.IH False show ?thesis
        unfolding best_inv_def same imp o
        by (auto simp: pre_eval split: option.splits)
    next
      case better: True
      with i have new: "tolerance s1 = 0" "best_val_acc s1 = accuracy vm"
        "best_val_loss s1 = loss"
        "best_result s1 = Some \<lparr> snap_epoch = int n, snap_val_loss = loss,
               snap_val_metric = vm, snap_test_metric = tm \<rparr>"
        by simp_all
      have b: "beats_sentinel (accuracy vm) loss"
        using better sentinel unfolding improves_def beats_sentinel_def by auto
      have self: "\<not> improves (accuracy vm) loss s1"
        by (simp add: improves_def new)
      have others: "\<not> improves (accuracy vm') l s1"
        if "EvalRecord e l vm' tm' t \<in> set pre" for e l vm' tm' t
      proof
        assume "improves (accuracy vm') l s1"
        from improves_trans [OF this new(2,3) better] old that show False
          by (simp add: pre_eval)
      qed
      show ?thesis
        unfolding best_inv_def
        using b self others by (auto simp: new o)
    qed
  qed
qed

subsection \<open>Runs that finish\<close>

lemma evaluate_total:
  assumes "mode = ''val'' \<or> mode = ''test''" and "iterate C w mode False n \<noteq> []"
  shows "\<exists>loss m w'. evaluate C w n mode = Inr (loss, m, w')"
proof -
  obtain ps w' where f: "forward_passes C w (iterate C w mode False n) = (ps, w')"
    by (cases "forward_passes C w (iterate C w mode False n)")
  from assms show ?thesis
    unfolding evaluate_closed f by auto
qed

lemma evaluation_round_total:
  assumes "\<And>w. iterate C w ''val'' False (args_batch_size A) \<noteq> []"
    and "\<And>w. iterate C w ''test'' False (args_batch_size A) \<noteq> []"
  shows "\<exists>s'. evaluation_round A C e s = Inr s'"
proof -
  from evaluate_total [OF _ assms(1)] obtain loss vm w1 where
    v: "evaluate C (model_eval C (world s)) (args_batch_size A) ''val'' = Inr (loss, vm, w1)"
    by blast
  from evaluate_total [OF _ assms(2)] obtain tloss tm w2 where
    "evaluate C w1 (args_batch_size A) ''test'' = Inr (tloss, tm, w2)"
    by blast
  from evaluation_round_eq [OF v this] show ?thesis by blast
qed

lemma train_epoch_total:
  assumes "cyc_ok A (cyc s)" and "args_lr_schedule A = ''cosine'' \<or> args_epochs A \<noteq> 0"
  shows "\<exists>s1. train_epoch A C e s = Inr s1"
proof -
  from assms have "if args_lr_schedule A = ''cosine'' then cyc s \<noteq> None
      else args_epochs A \<noteq> 0"
    by (cases "cyc s") (simp_all add: cyc_ok_def split: if_splits)
  from train_batches_total [OF this] obtain w1 trl lg where
    "train_batches A C e (cyc s)
       (iterate C (model_train C (world s)) ''train'' True (args_batch_size A))
       (model_train C (world s), 0, out s) = Inr (w1, trl, lg)"
    by (metis prod_cases3)
  moreover from update_cosine_ok [OF assms(1)] obtain cy where
    "update_cosine A (cyc s) = Inr cy"
    by blast
  ultimately show ?thesis
    by (simp add: train_epoch_def Let_def)
qed

lemma epoch_body_total:
  assumes "cyc_ok A (cyc s)" "args_log_interval A \<noteq> 0"
    and "args_lr_schedule A = ''cosine'' \<or> args_epochs A \<noteq> 0"
    and "\<And>w. iterate C w ''val'' False (args_batch_size A) \<noteq> []"
    and "\<And>w. iterate C w ''test'' False (args_batch_size A) \<noteq> []"
  shows "\<exists>s'. epoch_body A C e s = Inr s'"
proof -
  from train_epoch_total [OF assms(1,3)] obtain s1 where s1: "train_epoch A C e s = Inr s1"
    by blast
  from evaluation_round_total [OF assms(4,5)] obtain s' where
    "evaluation_round A C e s1 = Inr s'"
    by blast
  with s1 assms(2) show ?thesis
    by (simp add: epoch_body_def)
qed

lemma epoch_loop_total:
  assumes "cyc_ok A (cyc s)" "args_log_interval A \<noteq> 0" "0 \<le> e"
    and "\<And>w. iterate C w ''val'' False (args_batch_size A) \<noteq> []"
    and "\<And>w. iterate C w ''test'' False (args_batch_size A) \<noteq> []"
  shows "\<exists>s'. epoch_loop A C e s = Inr s'"
  using assms
proof (induction A C e s rule: epoch_loop.induct)
  case (1 A C epoch s)
  note unfold = epoch_loop.simps [of A C epoch s]
  show ?case
  proof (cases "epoch < args_epochs A \<and> \<not> tolerance s > args_tolerance A")
    case False
    then have "epoch_loop A C epoch s = Inr s"
      by (subst unfold) auto
    then show ?thesis by blast
  next
    case True
    with "1.prems"(3) have nz: "args_lr_schedule A = ''cosine'' \<or> args_epochs A \<noteq> 0"
      by auto
    from epoch_body_total [OF "1.prems"(1,2) nz "1.prems"(4,5)]
    obtain s1 where s1: "epoch_body A C epoch s = Inr s1"
      by blast
    from True have c1: "epoch < args_epochs A" and c2: "\<not> args_tolerance A < tolerance s"
      by simp_all
    have ok: "cyc_ok A (cyc s1)"
      by (rule epoch_body_cyc_ok [OF s1 "1.prems"(1)])
    from "1.prems"(3) have pos: "0 \<le> epoch + 1" by simp
    from "1.IH" [OF c1 c2 s1 ok "1.prems"(2) pos "1.prems"(4,5)] obtain s' where
      "epoch_loop A C (epoch + 1) s1 = Inr s'"
      by blast
    with True s1 have "epoch_loop A C epoch s = Inr s'"
      by (subst unfold) simp
    then show ?thesis by blast
  qed
qed

subsection \<open>The periods of the cosine schedule\<close>

lemma update_cosine_advance:
  assumes "args_lr_schedule A = ''cosine''" "0 \<le> c" "c < T"
  shows "update_cosine A (Some \<lparr> Ti = T, mult = 2, Tcur = c \<rparr>) =
     Inr (Some \<lparr> Ti = T, mult = 2, Tcur = c + 1 \<rparr>)"
proof -
  from assms have "c mod T = c" by simp
  with assms show ?thesis
    by (auto simp: update_cosine_def)
qed

lemma update_cosine_restart:
  assumes "args_lr_schedule A = ''cosine''" "0 < T"
  shows "update_cosine A (Some \<lparr> Ti = T, mult = 2, Tcur = T \<rparr>) =
     Inr (Some \<lparr> Ti = T * 2, mult = 2, Tcur = 0 \<rparr>)"
  using assms by (simp add: update_cosine_def)

lemma cyc_after_within:
  assumes "args_lr_schedule A = ''cosine''"
    and "cyc_after A m = Inr (Some \<lparr> Ti = T, mult = 2, Tcur = 0 \<rparr>)"
    and "int j \<le> T"
  shows "cyc_after A (m + j) = Inr (Some \<lparr> Ti = T, mult = 2, Tcur = int j \<rparr>)"
  using assms(3)
proof (induction j)
  case 0
  show ?case using assms(2) by simp
next
  case (Suc j)
  then have "cyc_after A (m + j) = Inr (Some \<lparr> Ti = T, mult = 2, Tcur = int j \<rparr>)"
    by simp
  moreover from Suc.prems have "int j < T" by simp
  ultimately show ?case
    using update_cosine_advance [OF assms(1), of "int j" T]
    by (simp add: add.commute)
qed

lemma period_start_Suc: "period_start (Suc k) = Suc (period_start k + 2 ^ k)"
proof -
  have "(1::nat) \<le> 2 ^ k" by simp
  then show ?thesis
    unfolding period_start_def by simp
qed

lemma cyc_after_period_start:
  assumes "args_lr_schedule A = ''cosine''"
  shows "cyc_after A (period_start k) = Inr (Some \<lparr> Ti = 2 ^ k, mult = 2, Tcur = 0 \<rparr>)"
proof (induction k)
  case 0
  show ?case using assms by (simp add: period_start_def init_state_def)
next
  case (Suc k)
  have "cyc_after A (period_start k + 2 ^ k) =
      Inr (Some \<lparr> Ti = 2 ^ k, mult = 2, Tcur = int (2 ^ k) \<rparr>)"
    by (rule cyc_after_within [OF assms Suc.IH]) simp
  then show ?case
    using update_cosine_restart [OF assms, of "2 ^ k"]
    by (simp add: period_start_Suc)
qed

lemma cyc_after_period:
  assumes "args_lr_schedule A = ''cosine''" and "j \<le> 2 ^ k"
  shows "cyc_after A (period_start k + j) = Inr (Some \<lparr> Ti = 2 ^ k, mult = 2, Tcur = int j \<rparr>)"
proof (rule cyc_after_within [OF assms(1) cyc_after_period_start [OF assms(1)]])
  from assms(2) have "int j \<le> int (2 ^ k)" by (rule iffD2 [OF of_nat_le_iff])
  then show "int j \<le> 2 ^ k" by simp
qed

lemma period_cover: "\<exists>k j. n = period_start k + j \<and> j \<le> 2 ^ k"
proof (induction n)
  case 0
  have "(0::nat) = period_start 0 + 0 \<and> (0::nat) \<le> 2 ^ 0"
    by (simp add: period_start_def)
  then show ?case by blast
next
  case (Suc n)
  then obtain k j where kj: "n = period_start k + j" "j \<le> 2 ^ k" by blast
  show ?case
  proof (cases "j < 2 ^ k")
    case True
    with kj have "Suc n = period_start k + Suc j \<and> Suc j \<le> 2 ^ k" by simp
    then show ?thesis by blast
  next
    case False
    with kj have "j = 2 ^ k" by simp
    with kj have "Suc n = period_start (Suc k) + 0 \<and> (0::nat) \<le> 2 ^ Suc k"
      by (simp add: period_start_Suc)
    then show ?thesis by blast
  qed
qed

lemma restart_at_period:
  assumes "args_lr_schedule A = ''cosine''" and "j \<le> 2 ^ k"
  shows "restart_at A (period_start k + j) \<longleftrightarrow> j = 2 ^ k"
proof -
  have "int j mod 2 ^ k = 0 \<and> 0 < int j \<longleftrightarrow> j = 2 ^ k"
  proof (cases "j = 2 ^ k")
    case True
    then show ?thesis by simp
  next
    case False
    with assms(2) have "j < 2 ^ k" by simp
    then have "int j < 2 ^ k"
      by (metis of_nat_less_iff of_nat_numeral of_nat_power)
    then have "int j mod 2 ^ k = int j" by simp
    with False show ?thesis by auto
  qed
  then show ?thesis
    unfolding restart_at_def cyc_after_period [OF assms]
    using assms(1) by simp
qed

lemma restart_at_iff:
  assumes "args_lr_schedule A = ''cosine''"
  shows "restart_at A n \<longleftrightarrow> (\<exists>k. n = period_start k + 2 ^ k)"
proof
  assume r: "restart_at A n"
  from period_cover [of n] obtain k j where kj: "n = period_start k + j" "j \<le> 2 ^ k" by blast
  with r restart_at_period [OF assms kj(2)] have "j = 2 ^ k" by simp
  with kj show "\<exists>k. n = period_start k + 2 ^ k" by blast
next
  assume "\<exists>k. n = period_start k + 2 ^ k"
  then obtain k where "n = period_start k + 2 ^ k" by blast
  with restart_at_period [OF assms, of "2 ^ k" k] show "restart_at A n" by simp
qed

subsection \<open>Running the driver on the small problem\<close>

lemmas run_defs = main_def epoch_loop.simps init_state_def epoch_body_def train_epoch_def
  train_step_def update_cosine_def evaluation_round_def evaluate_closed batch_losses_def
  improves_def
  demo_def demo_collab_def demo_args_def demo_acc_def demo_loss_def demo_size_def Let_def

lemmas demo_defs = demo_def demo_const_def demo_collab_def demo_args_def demo_acc_def
  demo_loss_def demo_size_def demo_state_def

subsection \<open>Rounds, snapshots and schedules\<close>

text \<open>The round at the end of an epoch whose number is a multiple of the log interval.\<close>

lemma epoch_body_round:
  assumes "epoch_body A C e s = Inr s'" and "e mod args_log_interval A = 0"
  shows "\<exists>loss vm tm. last (out s') = EvalRecord e loss vm tm (tolerance s') \<and>
    (if improves (accuracy vm) loss s
     then tolerance s' = 0 \<and> best_val_acc s' = accuracy vm \<and> best_val_loss s' = loss \<and>
       best_result s' = Some \<lparr> snap_epoch = e, snap_val_loss = loss,
         snap_val_metric = vm, snap_test_metric = tm \<rparr>
     else tolerance s' = tolerance s + 1 \<and> best_val_acc s' = best_val_acc s \<and>
       best_val_loss s' = best_val_loss s \<and> best_result s' = best_result s)"
proof -
  from epoch_body_cases [OF assms(1)] assms(2) obtain trl loss vm tm where
    o: "out s' = (out s @ lr_events A (cyc s)
            (iterate C (model_train C (world s)) ''train'' True (args_batch_size A))
            @ [TrainRecord e trl]) @ [EvalRecord e loss vm tm (tolerance s')]" and
    i: "if improves (accuracy vm) loss s
     then tolerance s' = 0 \<and> best_val_acc s' = accuracy vm \<and> best_val_loss s' = loss \<and>
       best_result s' = Some \<lparr> snap_epoch = e, snap_val_loss = loss,
         snap_val_metric = vm, snap_test_metric = tm \<rparr>
     else tolerance s' = tolerance s + 1 \<and> best_val_acc s' = best_val_acc s \<and>
       best_val_loss s' = best_val_loss s \<and> best_result s' = best_result s"
    by auto
  from o have "last (out s') = EvalRecord e loss vm tm (tolerance s')" by simp
  with i show ?thesis by blast
qed

lemma best_inv_None:
  assumes "best_inv s" "best_result s = None"
  shows "best_val_acc s = 0" "best_val_loss s = 100000"
  using assms by (auto simp: best_inv_def)

lemma best_inv_Some:
  assumes "best_inv s" "best_result s = Some snap"
  shows "best_val_acc s = accuracy (snap_val_metric snap)"
    "best_val_loss s = snap_val_loss snap"
    "beats_sentinel (accuracy (snap_val_metric snap)) (snap_val_loss snap)"
    "EvalRecord (snap_epoch snap) (snap_val_loss snap) (snap_val_metric snap)
       (snap_test_metric snap) 0 \<in> set (out s)"
  using assms by (auto simp: best_inv_def)

lemma best_inv_rounds:
  assumes "best_inv s" "EvalRecord e l vm tm t \<in> set (out s)"
  shows "\<not> improves (accuracy vm) l s"
proof -
  from assms(1) have "\<forall>e l vm tm t. EvalRecord e l vm tm t \<in> set (out s) \<longrightarrow>
      \<not> improves (accuracy vm) l s"
    unfolding best_inv_def by (rule conjunct2)
  with assms(2) show ?thesis by blast
qed

text \<open>The bookkeeping reads nothing of the arguments but the name of the schedule.\<close>

lemma cyc_after_schedule:
  assumes "args_lr_schedule A = args_lr_schedule B"
  shows "cyc_after A n = cyc_after B n"
proof (induction n)
  case 0
  show ?case using assms by (simp add: init_state_def)
next
  case (Suc n)
  have u: "update_cosine A = update_cosine B"
    using assms by (intro ext) (simp add: update_cosine_def)
  show ?case unfolding cyc_after.simps Suc u by (rule refl)
qed

lemma restart_at_schedule:
  assumes "args_lr_schedule A = args_lr_schedule B"
  shows "restart_at A n = restart_at B n"
  unfolding restart_at_def cyc_after_schedule [OF assms] assms by (rule refl)

lemma demo_restarts:
  "filter (restart_at (demo_args ''cosine'' 40 100 1)) [0..<36] = [1, 4, 9, 18, 35]"
  by code_simp

lemma restart_at_position:
  assumes "cyc_ok A (Some c)" "args_lr_schedule A = ''cosine''"
  shows "(Ti c \<noteq> 0 \<and> Tcur c mod Ti c = 0 \<and> Tcur c > 0) \<longleftrightarrow> Tcur c = Ti c"
proof -
  from assms have c: "1 \<le> Ti c" "0 \<le> Tcur c" "Tcur c \<le> Ti c"
    by (simp_all add: cyc_ok_def)
  show ?thesis
  proof (cases "Tcur c = Ti c")
    case True
    with c show ?thesis by simp
  next
    case False
    with c have "Tcur c < Ti c" by simp
    with c have "Tcur c mod Ti c = Tcur c" by simp
    with False c show ?thesis by auto
  qed
qed

section \<open>The claims\<close>

text \<open>
  Claim C1. After an evaluation round the new result replaces the stored best exactly
  when its validation accuracy is strictly greater than the best accuracy, or the
  accuracies are equal and its validation loss is strictly less than the best loss;
  otherwise the stored best is left as it is. The condition is the lexicographic
  order on the pair of the accuracy and the negated loss, so a higher accuracy wins
  whatever the loss and an equal accuracy with an equal loss does not replace.
\<close>

theorem best_result_replacement:
  assumes "evaluate C (model_eval C (world s)) (args_batch_size A) ''val'' = Inr (loss, vm, w1)"
    and "evaluate C w1 (args_batch_size A) ''test'' = Inr (tloss, tm, w2)"
  shows "(\<exists>s'. evaluation_round A C epoch s = Inr s' \<and>
     (if accuracy vm > best_val_acc s \<or> (accuracy vm = best_val_acc s \<and> loss < best_val_loss s)
      then best_result s' = Some \<lparr> snap_epoch = epoch, snap_val_loss = loss,
             snap_val_metric = vm, snap_test_metric = tm \<rparr>
           \<and> best_val_acc s' = accuracy vm \<and> best_val_loss s' = loss
      else best_result s' = best_result s
           \<and> best_val_acc s' = best_val_acc s \<and> best_val_loss s' = best_val_loss s)) \<and>
    ((accuracy vm > best_val_acc s \<or> (accuracy vm = best_val_acc s \<and> loss < best_val_loss s))
      \<longleftrightarrow> (best_val_acc s, - best_val_loss s) < (accuracy vm, - loss))"
proof
  show "\<exists>s'. evaluation_round A C epoch s = Inr s' \<and>
     (if accuracy vm > best_val_acc s \<or> (accuracy vm = best_val_acc s \<and> loss < best_val_loss s)
      then best_result s' = Some \<lparr> snap_epoch = epoch, snap_val_loss = loss,
             snap_val_metric = vm, snap_test_metric = tm \<rparr>
           \<and> best_val_acc s' = accuracy vm \<and> best_val_loss s' = loss
      else best_result s' = best_result s
           \<and> best_val_acc s' = best_val_acc s \<and> best_val_loss s' = best_val_loss s)"
    unfolding evaluation_round_eq [OF assms, of epoch] improves_def
    by simp
  show "(accuracy vm > best_val_acc s \<or> (accuracy vm = best_val_acc s \<and> loss < best_val_loss s))
      \<longleftrightarrow> (best_val_acc s, - best_val_loss s) < (accuracy vm, - loss)"
    by auto
qed

theorem best_result_replacement_witness:
  "evaluate (demo_const (4 / 5) (2 / 5)) (model_eval (demo_const (4 / 5) (2 / 5)) (world demo_state))
      (args_batch_size (demo_args ''constant'' 5 1 1)) ''val'' = Inr (2 / 5, \<lparr> accuracy = 4 / 5 \<rparr>, 0) \<and>
   evaluate (demo_const (4 / 5) (2 / 5)) 0
      (args_batch_size (demo_args ''constant'' 5 1 1)) ''test'' = Inr (2 / 5, \<lparr> accuracy = 4 / 5 \<rparr>, 0) \<and>
   (\<exists>s'. evaluation_round (demo_args ''constant'' 5 1 1) (demo_const (4 / 5) (2 / 5)) 7 demo_state
           = Inr s' \<and>
         best_result s' = Some \<lparr> snap_epoch = 7, snap_val_loss = 2 / 5,
           snap_val_metric = \<lparr> accuracy = 4 / 5 \<rparr>, snap_test_metric = \<lparr> accuracy = 4 / 5 \<rparr> \<rparr> \<and>
         best_val_acc s' = 4 / 5 \<and> best_val_loss s' = 2 / 5) \<and>
   evaluate (demo_const (79 / 100) (1 / 10))
      (model_eval (demo_const (79 / 100) (1 / 10)) (world demo_state))
      (args_batch_size (demo_args ''constant'' 5 1 1)) ''val'' = Inr (1 / 10, \<lparr> accuracy = 79 / 100 \<rparr>, 0) \<and>
   evaluate (demo_const (79 / 100) (1 / 10)) 0
      (args_batch_size (demo_args ''constant'' 5 1 1)) ''test'' = Inr (1 / 10, \<lparr> accuracy = 79 / 100 \<rparr>, 0) \<and>
   (\<exists>s'. evaluation_round (demo_args ''constant'' 5 1 1) (demo_const (79 / 100) (1 / 10)) 7 demo_state
           = Inr s' \<and>
         best_result s' = None \<and> best_val_acc s' = 4 / 5 \<and> best_val_loss s' = 1 / 2)"
proof -
  let ?A = "demo_args ''constant'' 5 1 1"
  let ?C = "demo_const (4 / 5) (2 / 5)"
  let ?D = "demo_const (79 / 100) (1 / 10)"
  have v: "evaluate ?C (model_eval ?C (world demo_state)) (args_batch_size ?A) ''val''
      = Inr (2 / 5, \<lparr> accuracy = 4 / 5 \<rparr>, 0)"
    by (simp add: evaluate_closed batch_losses_def demo_defs)
  have t: "evaluate ?C 0 (args_batch_size ?A) ''test''
      = Inr (2 / 5, \<lparr> accuracy = 4 / 5 \<rparr>, 0)"
    by (simp add: evaluate_closed batch_losses_def demo_defs)
  have v': "evaluate ?D (model_eval ?D (world demo_state)) (args_batch_size ?A) ''val''
      = Inr (1 / 10, \<lparr> accuracy = 79 / 100 \<rparr>, 0)"
    by (simp add: evaluate_closed batch_losses_def demo_defs)
  have t': "evaluate ?D 0 (args_batch_size ?A) ''test''
      = Inr (1 / 10, \<lparr> accuracy = 79 / 100 \<rparr>, 0)"
    by (simp add: evaluate_closed batch_losses_def demo_defs)
  have a: "best_val_acc demo_state = 4 / 5" "best_val_loss demo_state = 1 / 2"
    "best_result demo_state = None"
    by (simp_all add: demo_state_def)
  from best_result_replacement [OF v t, of 7] best_result_replacement [OF v' t', of 7] v t v' t'
  show ?thesis
    unfolding a by simp
qed

text \<open>
  Claim C2. Under the cosine schedule the bookkeeping runs once in every pass through
  the loop body, after the batches: every batch of the epoch computes its learning
  rate with the values Tcur and Ti hold at the head of the loop, the lines that
  follow the training record compute none, and the body ends with Tcur and Ti
  changed by one step: when Tcur is a multiple of Ti and not 0, Ti is multiplied by
  mult and Tcur is set to 0; otherwise Tcur goes up by 1. When Tcur is 0 there is no
  restart, whatever Ti is: Tcur becomes 1 (a period length of 0 would raise
  ZeroDivisionError instead).
\<close>

theorem cosine_bookkeeping:
  assumes "args_lr_schedule A = ''cosine''"
  shows "(loop_head A C w n = Some s \<and> epoch_body A C (int n) s = Inr s' \<longrightarrow>
      (\<exists>c trl rest. cyc s = Some c \<and>
         out s' = out s @
           map (\<lambda>b. LearningRate (Tcur c) (epoch_progress b) (Ti c))
             (iterate C (model_train C (world s)) ''train'' True (args_batch_size A))
           @ [TrainRecord (int n) trl] @ rest \<and>
         (\<forall>ev \<in> set rest. \<not> is_learning_rate ev) \<and>
         cyc s' = Some (if Tcur c mod Ti c = 0 \<and> Tcur c \<noteq> 0
                        then c\<lparr> Ti := Ti c * mult c, Tcur := 0 \<rparr>
                        else c\<lparr> Tcur := Tcur c + 1 \<rparr>))) \<and>
    (Tcur d = 0 \<longrightarrow>
       update_cosine A (Some d) =
         (if Ti d = 0 then Inl ZeroDivisionError else Inr (Some (d\<lparr> Tcur := 1 \<rparr>))))"
proof (intro conjI impI)
  assume "Tcur d = 0"
  with assms show "update_cosine A (Some d) =
         (if Ti d = 0 then Inl ZeroDivisionError else Inr (Some (d\<lparr> Tcur := 1 \<rparr>)))"
    by (simp add: update_cosine_def)
next
  assume a: "loop_head A C w n = Some s \<and> epoch_body A C (int n) s = Inr s'"
  then have h: "loop_head A C w n = Some s" and b: "epoch_body A C (int n) s = Inr s'"
    by simp_all
  from loop_head_cyc_ok [OF h] assms obtain c where
    c: "cyc s = Some c" "1 \<le> Ti c" "0 \<le> Tcur c"
    by (cases "cyc s") (simp_all add: cyc_ok_def)
  from epoch_body_out [OF b] obtain trl rest where
    o: "out s' = out s @ lr_events A (cyc s)
            (iterate C (model_train C (world s)) ''train'' True (args_batch_size A))
            @ [TrainRecord (int n) trl] @ rest" and
    r: "if int n mod args_log_interval A = 0
           then \<exists>loss vm tm. rest = [EvalRecord (int n) loss vm tm (tolerance s')]
           else rest = []"
    by blast
  from r have nolr: "\<forall>ev \<in> set rest. \<not> is_learning_rate ev"
    by (auto split: if_splits)
  from epoch_body_cases [OF b] have "update_cosine A (cyc s) = Inr (cyc s')"
    by blast
  with assms c have u: "cyc s' = Some (if Tcur c mod Ti c = 0 \<and> Tcur c \<noteq> 0
                        then c\<lparr> Ti := Ti c * mult c, Tcur := 0 \<rparr>
                        else c\<lparr> Tcur := Tcur c + 1 \<rparr>)"
    by (auto simp: update_cosine_def split: if_splits)
  from o assms c have o': "out s' = out s @
           map (\<lambda>b. LearningRate (Tcur c) (epoch_progress b) (Ti c))
             (iterate C (model_train C (world s)) ''train'' True (args_batch_size A))
           @ [TrainRecord (int n) trl] @ rest"
    by (simp add: lr_events_Some)
  from c(1) o' nolr u show "\<exists>c trl rest. cyc s = Some c \<and>
         out s' = out s @
           map (\<lambda>b. LearningRate (Tcur c) (epoch_progress b) (Ti c))
             (iterate C (model_train C (world s)) ''train'' True (args_batch_size A))
           @ [TrainRecord (int n) trl] @ rest \<and>
         (\<forall>ev \<in> set rest. \<not> is_learning_rate ev) \<and>
         cyc s' = Some (if Tcur c mod Ti c = 0 \<and> Tcur c \<noteq> 0
                        then c\<lparr> Ti := Ti c * mult c, Tcur := 0 \<rparr>
                        else c\<lparr> Tcur := Tcur c + 1 \<rparr>)"
    by blast
qed

theorem cosine_bookkeeping_witness:
  "args_lr_schedule (demo_args ''cosine'' 5 1 1) = ''cosine'' \<and>
   loop_head (demo_args ''cosine'' 5 1 1) demo 0 (Suc 0) =
     Some \<lparr> world = 1, tolerance = 0, best_val_loss = 1, best_val_acc = 1 / 2,
       best_result = Some \<lparr> snap_epoch = 0, snap_val_loss = 1,
         snap_val_metric = \<lparr> accuracy = 1 / 2 \<rparr>, snap_test_metric = \<lparr> accuracy = 1 / 2 \<rparr> \<rparr>,
       cyc = Some \<lparr> Ti = 1, mult = 2, Tcur = 1 \<rparr>,
       out = [LearningRate 0 0 1, TrainRecord 0 1,
              EvalRecord 0 1 \<lparr> accuracy = 1 / 2 \<rparr> \<lparr> accuracy = 1 / 2 \<rparr> 0] \<rparr> \<and>
   epoch_body (demo_args ''cosine'' 5 1 1) demo (int (Suc 0))
     \<lparr> world = 1, tolerance = 0, best_val_loss = 1, best_val_acc = 1 / 2,
       best_result = Some \<lparr> snap_epoch = 0, snap_val_loss = 1,
         snap_val_metric = \<lparr> accuracy = 1 / 2 \<rparr>, snap_test_metric = \<lparr> accuracy = 1 / 2 \<rparr> \<rparr>,
       cyc = Some \<lparr> Ti = 1, mult = 2, Tcur = 1 \<rparr>,
       out = [LearningRate 0 0 1, TrainRecord 0 1,
              EvalRecord 0 1 \<lparr> accuracy = 1 / 2 \<rparr> \<lparr> accuracy = 1 / 2 \<rparr> 0] \<rparr> =
     Inr \<lparr> world = 2, tolerance = 0, best_val_loss = 4 / 5, best_val_acc = 3 / 5,
       best_result = Some \<lparr> snap_epoch = 1, snap_val_loss = 4 / 5,
         snap_val_metric = \<lparr> accuracy = 3 / 5 \<rparr>, snap_test_metric = \<lparr> accuracy = 3 / 5 \<rparr> \<rparr>,
       cyc = Some \<lparr> Ti = 2, mult = 2, Tcur = 0 \<rparr>,
       out = [LearningRate 0 0 1, TrainRecord 0 1,
              EvalRecord 0 1 \<lparr> accuracy = 1 / 2 \<rparr> \<lparr> accuracy = 1 / 2 \<rparr> 0,
              LearningRate 1 0 1, TrainRecord 1 1,
              EvalRecord 1 (4 / 5) \<lparr> accuracy = 3 / 5 \<rparr> \<lparr> accuracy = 3 / 5 \<rparr> 0] \<rparr> \<and>
   Tcur \<lparr> Ti = 5, mult = 2, Tcur = 0 \<rparr> = 0 \<and>
   update_cosine (demo_args ''cosine'' 5 1 1) (Some \<lparr> Ti = 5, mult = 2, Tcur = 0 \<rparr>) =
     Inr (Some \<lparr> Ti = 5, mult = 2, Tcur = 1 \<rparr>)"
proof -
  let ?A = "demo_args ''cosine'' 5 1 1"
  let ?S1 = "\<lparr> world = 1::nat, tolerance = 0, best_val_loss = 1, best_val_acc = 1 / 2,
       best_result = Some \<lparr> snap_epoch = 0, snap_val_loss = 1,
         snap_val_metric = \<lparr> accuracy = 1 / 2 \<rparr>, snap_test_metric = \<lparr> accuracy = 1 / 2 \<rparr> \<rparr>,
       cyc = Some \<lparr> Ti = 1, mult = 2, Tcur = 1 \<rparr>,
       out = [LearningRate 0 0 1, TrainRecord 0 1,
              EvalRecord 0 1 \<lparr> accuracy = 1 / 2 \<rparr> \<lparr> accuracy = 1 / 2 \<rparr> 0] \<rparr>"
  let ?S2 = "\<lparr> world = 2::nat, tolerance = 0, best_val_loss = 4 / 5, best_val_acc = 3 / 5,
       best_result = Some \<lparr> snap_epoch = 1, snap_val_loss = 4 / 5,
         snap_val_metric = \<lparr> accuracy = 3 / 5 \<rparr>, snap_test_metric = \<lparr> accuracy = 3 / 5 \<rparr> \<rparr>,
       cyc = Some \<lparr> Ti = 2, mult = 2, Tcur = 0 \<rparr>,
       out = [LearningRate 0 0 1, TrainRecord 0 1,
              EvalRecord 0 1 \<lparr> accuracy = 1 / 2 \<rparr> \<lparr> accuracy = 1 / 2 \<rparr> 0,
              LearningRate 1 0 1, TrainRecord 1 1,
              EvalRecord 1 (4 / 5) \<lparr> accuracy = 3 / 5 \<rparr> \<lparr> accuracy = 3 / 5 \<rparr> 0] \<rparr>"
  let ?d = "\<lparr> Ti = 5, mult = 2, Tcur = 0 \<rparr>"
  have a: "args_lr_schedule ?A = ''cosine''"
    by (simp add: demo_args_def)
  have h: "loop_head ?A demo 0 (Suc 0) = Some ?S1"
    by (simp add: run_defs demo_defs)
  have b: "epoch_body ?A demo (int (Suc 0)) ?S1 = Inr ?S2"
    by (simp add: run_defs demo_defs)
  note t = cosine_bookkeeping [OF a, of demo 0 "Suc 0" ?S1 ?S2 ?d]
  from conjunct1 [OF t] h b obtain c where
    "cyc ?S1 = Some c"
    "cyc ?S2 = Some (if Tcur c mod Ti c = 0 \<and> Tcur c \<noteq> 0
                        then c\<lparr> Ti := Ti c * mult c, Tcur := 0 \<rparr>
                        else c\<lparr> Tcur := Tcur c + 1 \<rparr>)"
    by blast
  then have "cyc ?S2 = Some \<lparr> Ti = 2, mult = 2, Tcur = 0 \<rparr>"
    by simp
  moreover from conjunct2 [OF t]
  have "update_cosine ?A (Some ?d) = Inr (Some \<lparr> Ti = 5, mult = 2, Tcur = 1 \<rparr>)"
    by simp
  ultimately show ?thesis using a h b by simp
qed

text \<open>
  Claim C3. The loop tests the tolerance counter against the limit at the head of
  every epoch and, when the counter is strictly greater, leaves the loop with the
  state untouched: the epoch is not trained. A run that finishes has trained at most
  \<^verbatim>\<open>args.epochs\<close> epochs, and has evaluated at most limit + 1 times after
  the round that gave the final best result (when no round ever improved, at most
  limit + 1 times in all, and not at all when the limit is negative).
\<close>

theorem early_stopping_bound:
  "(args_tolerance A < tolerance s0 \<longrightarrow> epoch_loop A C e s0 = Inr s0) \<and>
   (main A C w = Inr lg \<longrightarrow>
      int (length (filter is_train_record lg)) \<le> max 0 (args_epochs A) \<and>
      (\<forall>snap. last lg = Result (Some snap) \<longrightarrow>
         int (length (filter (eval_after (snap_epoch snap)) lg)) \<le> args_tolerance A + 1) \<and>
      (last lg = Result None \<longrightarrow>
         int (length (filter is_eval_record lg)) \<le> max 0 (args_tolerance A + 1)))"
proof (intro conjI impI allI)
  assume "args_tolerance A < tolerance s0"
  then show "epoch_loop A C e s0 = Inr s0"
    by (subst epoch_loop.simps) simp
next
  assume m: "main A C w = Inr lg"
  from m obtain s k where h: "loop_head A C w k = Some s"
    and lg: "lg = out s @ [Done, Result (best_result s)]"
    by (rule main_Inr)
  from loop_head_epochs [OF h] lg
  show "int (length (filter is_train_record lg)) \<le> max 0 (args_epochs A)"
    by simp
next
  fix snap
  assume m: "main A C w = Inr lg" and la: "last lg = Result (Some snap)"
  from m obtain s k where h: "loop_head A C w k = Some s"
    and lg: "lg = out s @ [Done, Result (best_result s)]"
    by (rule main_Inr)
  from la lg have best: "best_result s = Some snap" by simp
  have limit: "0 \<le> args_tolerance A"
  proof (cases k)
    case 0
    with h have "s = init_state A w" by simp
    with best show ?thesis by (simp add: init_state_def)
  next
    case (Suc j)
    with h have "loop_head A C w (Suc j) = Some s" by simp
    then obtain s1 where "loop_head A C w j = Some s1" "tolerance s1 \<le> args_tolerance A"
      by (rule loop_head_Suc)
    with loop_head_tolerance [of A C w j s1] show ?thesis by simp
  qed
  from loop_head_rounds [OF h] best
  have "tolerance s = int (length (filter (eval_after (snap_epoch snap)) (out s)))"
    by (simp add: rounds_since_best_def)
  moreover from loop_head_tolerance [OF h] limit have "tolerance s \<le> args_tolerance A + 1"
    by auto
  ultimately show "int (length (filter (eval_after (snap_epoch snap)) lg)) \<le> args_tolerance A + 1"
    using lg by simp
next
  assume m: "main A C w = Inr lg" and la: "last lg = Result None"
  from m obtain s k where h: "loop_head A C w k = Some s"
    and lg: "lg = out s @ [Done, Result (best_result s)]"
    by (rule main_Inr)
  from la lg have best: "best_result s = None" by simp
  from loop_head_rounds [OF h] best
  have "tolerance s = int (length (filter is_eval_record (out s)))"
    by (simp add: rounds_since_best_def)
  moreover from loop_head_tolerance [OF h] have "tolerance s \<le> max 0 (args_tolerance A + 1)"
    by auto
  ultimately show "int (length (filter is_eval_record lg)) \<le> max 0 (args_tolerance A + 1)"
    using lg by simp
qed

theorem early_stopping_bound_witness:
  "args_tolerance (demo_args ''cosine'' 5 1 1)
     < tolerance (demo_state \<lparr> tolerance := 2 \<rparr>) \<and>
   epoch_loop (demo_args ''cosine'' 5 1 1) demo 3 (demo_state \<lparr> tolerance := 2 \<rparr>)
     = Inr (demo_state \<lparr> tolerance := 2 \<rparr>) \<and>
   main (demo_args ''cosine'' 5 1 1) demo 0 =
     Inr [LearningRate 0 0 1, TrainRecord 0 1,
          EvalRecord 0 1 \<lparr> accuracy = 1 / 2 \<rparr> \<lparr> accuracy = 1 / 2 \<rparr> 0,
          LearningRate 1 0 1, TrainRecord 1 1,
          EvalRecord 1 (4 / 5) \<lparr> accuracy = 3 / 5 \<rparr> \<lparr> accuracy = 3 / 5 \<rparr> 0,
          LearningRate 0 0 2, TrainRecord 2 (4 / 5),
          EvalRecord 2 (4 / 5) \<lparr> accuracy = 3 / 5 \<rparr> \<lparr> accuracy = 3 / 5 \<rparr> 1,
          LearningRate 1 0 2, TrainRecord 3 (4 / 5),
          EvalRecord 3 (9 / 10) \<lparr> accuracy = 3 / 5 \<rparr> \<lparr> accuracy = 3 / 5 \<rparr> 2,
          Done,
          Result (Some \<lparr> snap_epoch = 1, snap_val_loss = 4 / 5,
            snap_val_metric = \<lparr> accuracy = 3 / 5 \<rparr>,
            snap_test_metric = \<lparr> accuracy = 3 / 5 \<rparr> \<rparr>)] \<and>
   length (filter is_train_record
         [LearningRate 0 0 1, TrainRecord 0 1,
          EvalRecord 0 1 \<lparr> accuracy = 1 / 2 \<rparr> \<lparr> accuracy = 1 / 2 \<rparr> 0,
          LearningRate 1 0 1, TrainRecord 1 1,
          EvalRecord 1 (4 / 5) \<lparr> accuracy = 3 / 5 \<rparr> \<lparr> accuracy = 3 / 5 \<rparr> 0,
          LearningRate 0 0 2, TrainRecord 2 (4 / 5),
          EvalRecord 2 (4 / 5) \<lparr> accuracy = 3 / 5 \<rparr> \<lparr> accuracy = 3 / 5 \<rparr> 1,
          LearningRate 1 0 2, TrainRecord 3 (4 / 5),
          EvalRecord 3 (9 / 10) \<lparr> accuracy = 3 / 5 \<rparr> \<lparr> accuracy = 3 / 5 \<rparr> 2,
          Done,
          Result (Some \<lparr> snap_epoch = 1, snap_val_loss = 4 / 5,
            snap_val_metric = \<lparr> accuracy = 3 / 5 \<rparr>,
            snap_test_metric = \<lparr> accuracy = 3 / 5 \<rparr> \<rparr>) :: unit event]) = 4 \<and>
   length (filter (eval_after 1)
         [LearningRate 0 0 1, TrainRecord 0 1,
          EvalRecord 0 1 \<lparr> accuracy = 1 / 2 \<rparr> \<lparr> accuracy = 1 / 2 \<rparr> 0,
          LearningRate 1 0 1, TrainRecord 1 1,
          EvalRecord 1 (4 / 5) \<lparr> accuracy = 3 / 5 \<rparr> \<lparr> accuracy = 3 / 5 \<rparr> 0,
          LearningRate 0 0 2, TrainRecord 2 (4 / 5),
          EvalRecord 2 (4 / 5) \<lparr> accuracy = 3 / 5 \<rparr> \<lparr> accuracy = 3 / 5 \<rparr> 1,
          LearningRate 1 0 2, TrainRecord 3 (4 / 5),
          EvalRecord 3 (9 / 10) \<lparr> accuracy = 3 / 5 \<rparr> \<lparr> accuracy = 3 / 5 \<rparr> 2,
          Done,
          Result (Some \<lparr> snap_epoch = 1, snap_val_loss = 4 / 5,
            snap_val_metric = \<lparr> accuracy = 3 / 5 \<rparr>,
            snap_test_metric = \<lparr> accuracy = 3 / 5 \<rparr> \<rparr>) :: unit event]) = 2 \<and>
   args_tolerance (demo_args ''cosine'' 5 1 1) + 1 = 2"
proof -
  let ?A = "demo_args ''cosine'' 5 1 1"
  let ?s0 = "demo_state \<lparr> tolerance := 2 \<rparr>"
  let ?snap = "\<lparr> snap_epoch = 1, snap_val_loss = 4 / 5,
            snap_val_metric = \<lparr> accuracy = 3 / 5 \<rparr>,
            snap_test_metric = \<lparr> accuracy = 3 / 5 \<rparr> \<rparr>"
  let ?lg = "[LearningRate 0 0 1, TrainRecord 0 1,
          EvalRecord 0 1 \<lparr> accuracy = 1 / 2 \<rparr> \<lparr> accuracy = 1 / 2 \<rparr> 0,
          LearningRate 1 0 1, TrainRecord 1 1,
          EvalRecord 1 (4 / 5) \<lparr> accuracy = 3 / 5 \<rparr> \<lparr> accuracy = 3 / 5 \<rparr> 0,
          LearningRate 0 0 2, TrainRecord 2 (4 / 5),
          EvalRecord 2 (4 / 5) \<lparr> accuracy = 3 / 5 \<rparr> \<lparr> accuracy = 3 / 5 \<rparr> 1,
          LearningRate 1 0 2, TrainRecord 3 (4 / 5),
          EvalRecord 3 (9 / 10) \<lparr> accuracy = 3 / 5 \<rparr> \<lparr> accuracy = 3 / 5 \<rparr> 2,
          Done, Result (Some ?snap) :: unit event]"
  have t: "args_tolerance ?A < tolerance ?s0"
    by (simp add: demo_defs)
  have m: "main ?A demo 0 = Inr ?lg"
    by (simp add: run_defs demo_defs)
  have la: "last ?lg = Result (Some ?snap)"
    by simp
  note inst = early_stopping_bound [of ?A ?s0 demo 3 0 ?lg]
  from conjunct1 [OF inst] t have 1: "epoch_loop ?A demo 3 ?s0 = Inr ?s0"
    by blast
  from conjunct2 [OF inst] m la
  have 2: "int (length (filter (eval_after (snap_epoch ?snap)) ?lg)) \<le> args_tolerance ?A + 1"
    by blast
  have 3: "length (filter is_train_record ?lg) = 4" "length (filter (eval_after 1) ?lg) = 2"
    "args_tolerance ?A + 1 = 2"
    by (simp_all add: demo_args_def)
  from t 1 m 2 3 show ?thesis by blast
qed

text \<open>
  Claim C4. In an epoch whose number is a multiple of the log interval the loop body
  ends with one evaluation round: if the round replaces the best result the tolerance
  counter is set to 0, and otherwise the counter goes up by exactly 1 and the best
  result stays. In any other epoch no evaluation happens: the body is the training
  half alone, and the counter, the best result and the best values are unchanged.
  Hence, at the head of the loop, the counter is never negative and equals the number
  of evaluation rounds since the best result was last replaced.
\<close>

theorem tolerance_accounting:
  "(epoch_body A C e s = Inr s' \<longrightarrow>
      (if e mod args_log_interval A = 0
       then \<exists>loss vm tm. last (out s') = EvalRecord e loss vm tm (tolerance s') \<and>
              (if improves (accuracy vm) loss s
               then tolerance s' = 0 \<and>
                 best_result s' = Some \<lparr> snap_epoch = e, snap_val_loss = loss,
                   snap_val_metric = vm, snap_test_metric = tm \<rparr>
               else tolerance s' = tolerance s + 1 \<and> best_result s' = best_result s)
       else train_epoch A C e s = Inr s' \<and> tolerance s' = tolerance s \<and>
         best_result s' = best_result s \<and> best_val_acc s' = best_val_acc s \<and>
         best_val_loss s' = best_val_loss s \<and>
         filter is_eval_record (out s') = filter is_eval_record (out s))) \<and>
   (loop_head A C w n = Some s \<longrightarrow>
      0 \<le> tolerance s \<and> tolerance s = int (length (rounds_since_best s)))"
proof (intro conjI impI)
  assume b: "epoch_body A C e s = Inr s'"
  from epoch_body_Inr [OF b] obtain s1 where
    s1: "train_epoch A C e s = Inr s1" and
    r: "if e mod args_log_interval A = 0 then evaluation_round A C e s1 = Inr s' else s' = s1"
    by blast
  from epoch_body_cases [OF b] obtain trl where
    c: "if e mod args_log_interval A = 0 then
        (\<exists>loss vm tm. out s' = (out s @ lr_events A (cyc s)
            (iterate C (model_train C (world s)) ''train'' True (args_batch_size A))
            @ [TrainRecord e trl]) @ [EvalRecord e loss vm tm (tolerance s')] \<and>
          (if improves (accuracy vm) loss s
           then tolerance s' = 0 \<and> best_val_acc s' = accuracy vm \<and> best_val_loss s' = loss \<and>
             best_result s' = Some \<lparr> snap_epoch = e, snap_val_loss = loss,
               snap_val_metric = vm, snap_test_metric = tm \<rparr>
           else tolerance s' = tolerance s + 1 \<and> best_val_acc s' = best_val_acc s \<and>
             best_val_loss s' = best_val_loss s \<and> best_result s' = best_result s))
      else out s' = out s @ lr_events A (cyc s)
            (iterate C (model_train C (world s)) ''train'' True (args_batch_size A))
            @ [TrainRecord e trl] \<and>
        tolerance s' = tolerance s \<and> best_val_acc s' = best_val_acc s \<and>
        best_val_loss s' = best_val_loss s \<and> best_result s' = best_result s"
    by blast
  show "if e mod args_log_interval A = 0
       then \<exists>loss vm tm. last (out s') = EvalRecord e loss vm tm (tolerance s') \<and>
              (if improves (accuracy vm) loss s
               then tolerance s' = 0 \<and>
                 best_result s' = Some \<lparr> snap_epoch = e, snap_val_loss = loss,
                   snap_val_metric = vm, snap_test_metric = tm \<rparr>
               else tolerance s' = tolerance s + 1 \<and> best_result s' = best_result s)
       else train_epoch A C e s = Inr s' \<and> tolerance s' = tolerance s \<and>
         best_result s' = best_result s \<and> best_val_acc s' = best_val_acc s \<and>
         best_val_loss s' = best_val_loss s \<and>
         filter is_eval_record (out s') = filter is_eval_record (out s)"
  proof (cases "e mod args_log_interval A = 0")
    case True
    with c obtain loss vm tm where
      o: "out s' = (out s @ lr_events A (cyc s)
            (iterate C (model_train C (world s)) ''train'' True (args_batch_size A))
            @ [TrainRecord e trl]) @ [EvalRecord e loss vm tm (tolerance s')]" and
      i: "if improves (accuracy vm) loss s
           then tolerance s' = 0 \<and>
             best_result s' = Some \<lparr> snap_epoch = e, snap_val_loss = loss,
               snap_val_metric = vm, snap_test_metric = tm \<rparr>
           else tolerance s' = tolerance s + 1 \<and> best_result s' = best_result s"
      by (auto split: if_splits)
    from o have "last (out s') = EvalRecord e loss vm tm (tolerance s')"
      by simp
    with i have "\<exists>loss vm tm. last (out s') = EvalRecord e loss vm tm (tolerance s') \<and>
              (if improves (accuracy vm) loss s
               then tolerance s' = 0 \<and>
                 best_result s' = Some \<lparr> snap_epoch = e, snap_val_loss = loss,
                   snap_val_metric = vm, snap_test_metric = tm \<rparr>
               else tolerance s' = tolerance s + 1 \<and> best_result s' = best_result s)"
      by blast
    with True show ?thesis by simp
  next
    case False
    with r s1 have "train_epoch A C e s = Inr s'" by simp
    moreover from False c have "filter is_eval_record (out s') = filter is_eval_record (out s)"
      by simp
    ultimately show ?thesis using False c by simp
  qed
next
  assume h: "loop_head A C w n = Some s"
  from loop_head_tolerance [OF h] show "0 \<le> tolerance s" by simp
  from loop_head_rounds [OF h] show "tolerance s = int (length (rounds_since_best s))" by simp
qed

theorem tolerance_accounting_witness:
  "epoch_body (demo_args ''constant'' 10 5 1) (demo_const (79 / 100) (1 / 10)) 7 demo_state =
     Inr \<lparr> world = 1, tolerance = 4, best_val_loss = 1 / 2, best_val_acc = 4 / 5,
       best_result = None, cyc = None,
       out = [TrainRecord 7 (1 / 10),
              EvalRecord 7 (1 / 10) \<lparr> accuracy = 79 / 100 \<rparr> \<lparr> accuracy = 79 / 100 \<rparr> 4] \<rparr> \<and>
   tolerance demo_state + 1 = 4 \<and>
   \<not> improves (79 / 100) (1 / 10) demo_state \<and>
   epoch_body (demo_args ''constant'' 5 1 2) demo 1
     \<lparr> world = 1, tolerance = 0, best_val_loss = 1, best_val_acc = 1 / 2,
       best_result = Some \<lparr> snap_epoch = 0, snap_val_loss = 1,
         snap_val_metric = \<lparr> accuracy = 1 / 2 \<rparr>, snap_test_metric = \<lparr> accuracy = 1 / 2 \<rparr> \<rparr>,
       cyc = None,
       out = [TrainRecord 0 1, EvalRecord 0 1 \<lparr> accuracy = 1 / 2 \<rparr> \<lparr> accuracy = 1 / 2 \<rparr> 0] \<rparr> =
     Inr \<lparr> world = 2, tolerance = 0, best_val_loss = 1, best_val_acc = 1 / 2,
       best_result = Some \<lparr> snap_epoch = 0, snap_val_loss = 1,
         snap_val_metric = \<lparr> accuracy = 1 / 2 \<rparr>, snap_test_metric = \<lparr> accuracy = 1 / 2 \<rparr> \<rparr>,
       cyc = None,
       out = [TrainRecord 0 1, EvalRecord 0 1 \<lparr> accuracy = 1 / 2 \<rparr> \<lparr> accuracy = 1 / 2 \<rparr> 0,
              TrainRecord 1 1] \<rparr> \<and>
   (1::int) mod args_log_interval (demo_args ''constant'' 5 1 2) \<noteq> 0 \<and>
   loop_head (demo_args ''constant'' 5 1 2) demo 0 (Suc 0) =
     Some \<lparr> world = 1, tolerance = 0, best_val_loss = 1, best_val_acc = 1 / 2,
       best_result = Some \<lparr> snap_epoch = 0, snap_val_loss = 1,
         snap_val_metric = \<lparr> accuracy = 1 / 2 \<rparr>, snap_test_metric = \<lparr> accuracy = 1 / 2 \<rparr> \<rparr>,
       cyc = None,
       out = [TrainRecord 0 1, EvalRecord 0 1 \<lparr> accuracy = 1 / 2 \<rparr> \<lparr> accuracy = 1 / 2 \<rparr> 0] \<rparr> \<and>
   rounds_since_best
     \<lparr> world = 1::nat, tolerance = 0, best_val_loss = 1, best_val_acc = 1 / 2,
       best_result = Some \<lparr> snap_epoch = 0, snap_val_loss = 1,
         snap_val_metric = \<lparr> accuracy = 1 / 2 \<rparr>, snap_test_metric = \<lparr> accuracy = 1 / 2 \<rparr> \<rparr>,
       cyc = None,
       out = [TrainRecord 0 1, EvalRecord 0 1 \<lparr> accuracy = 1 / 2 \<rparr> \<lparr> accuracy = 1 / 2 \<rparr> 0] \<rparr> = []"
proof -
  let ?A = "demo_args ''constant'' 10 5 1"
  let ?C = "demo_const (79 / 100) (1 / 10)"
  let ?T = "\<lparr> world = 1::nat, tolerance = 4, best_val_loss = 1 / 2, best_val_acc = 4 / 5,
       best_result = None, cyc = None,
       out = [TrainRecord 7 (1 / 10),
              EvalRecord 7 (1 / 10) \<lparr> accuracy = 79 / 100 \<rparr> \<lparr> accuracy = 79 / 100 \<rparr> 4] \<rparr>"
  let ?B = "demo_args ''constant'' 5 1 2"
  let ?S1 = "\<lparr> world = 1::nat, tolerance = 0, best_val_loss = 1, best_val_acc = 1 / 2,
       best_result = Some \<lparr> snap_epoch = 0, snap_val_loss = 1,
         snap_val_metric = \<lparr> accuracy = 1 / 2 \<rparr>, snap_test_metric = \<lparr> accuracy = 1 / 2 \<rparr> \<rparr>,
       cyc = None,
       out = [TrainRecord 0 1, EvalRecord 0 1 \<lparr> accuracy = 1 / 2 \<rparr> \<lparr> accuracy = 1 / 2 \<rparr> 0] \<rparr>"
  let ?S2 = "\<lparr> world = 2::nat, tolerance = 0, best_val_loss = 1, best_val_acc = 1 / 2,
       best_result = Some \<lparr> snap_epoch = 0, snap_val_loss = 1,
         snap_val_metric = \<lparr> accuracy = 1 / 2 \<rparr>, snap_test_metric = \<lparr> accuracy = 1 / 2 \<rparr> \<rparr>,
       cyc = None,
       out = [TrainRecord 0 1, EvalRecord 0 1 \<lparr> accuracy = 1 / 2 \<rparr> \<lparr> accuracy = 1 / 2 \<rparr> 0,
              TrainRecord 1 1] \<rparr>"
  have b1: "epoch_body ?A ?C 7 demo_state = Inr ?T"
    by (simp add: run_defs demo_defs)
  have b2: "epoch_body ?B demo 1 ?S1 = Inr ?S2"
    by (simp add: run_defs demo_defs)
  have h: "loop_head ?B demo 0 (Suc 0) = Some ?S1"
    by (simp add: run_defs demo_defs)
  have m: "(1::int) mod args_log_interval ?B \<noteq> 0"
    by (simp add: demo_args_def)
  have i: "\<not> improves (79 / 100) (1 / 10) demo_state" "tolerance demo_state + 1 = 4"
    by (simp_all add: improves_def demo_state_def)
  from conjunct1 [OF tolerance_accounting, THEN mp, OF b1]
  have "\<exists>loss vm tm. last (out ?T) = EvalRecord 7 loss vm tm (tolerance ?T) \<and>
      (if improves (accuracy vm) loss demo_state
       then tolerance ?T = 0 \<and>
         best_result ?T = Some \<lparr> snap_epoch = 7, snap_val_loss = loss,
           snap_val_metric = vm, snap_test_metric = tm \<rparr>
       else tolerance ?T = tolerance demo_state + 1 \<and> best_result ?T = best_result demo_state)"
    by (simp add: demo_args_def)
  moreover from conjunct1 [OF tolerance_accounting, THEN mp, OF b2] m
  have "tolerance ?S2 = tolerance ?S1 \<and> best_result ?S2 = best_result ?S1"
    by simp
  moreover from conjunct2 [OF tolerance_accounting, THEN mp, OF h]
  have "int (length (rounds_since_best ?S1)) = 0"
    by simp
  then have "rounds_since_best ?S1 = []" by simp
  ultimately show ?thesis using b1 b2 h m i by blast
qed

text \<open>
  Claim C5, as stated, fails: with Ti = 1, mult = 2 and Tcur = 0 at the start, the
  restarts of the first twelve epochs fall at the end of the epochs 1, 4 and 9
  (counted from 0). The third restart comes 5 epochs after the second, not 7; at the
  end of epoch 11 there is none, and after twelve epochs Ti is 8 and Tcur is 2.
\<close>

theorem restart_gap_counterexample:
  "filter (restart_at (demo_args ''cosine'' 40 100 1)) [0..<12] = [1, 4, 9] \<and>
   restart_at (demo_args ''cosine'' 40 100 1) (4 + 5) \<and>
   \<not> restart_at (demo_args ''cosine'' 40 100 1) (4 + 7) \<and>
   map_option cyc (loop_head (demo_args ''cosine'' 40 100 1) demo 0 12) =
     Some (Some \<lparr> Ti = 8, mult = 2, Tcur = 2 \<rparr>)"
  by code_simp

text \<open>
  Claim C5, amended. With Ti = 1, mult = 2 and Tcur = 0 at the start, the period of
  length \<open>2 ^ k\<close> begins with the epoch \<open>2 ^ k + k - 1\<close> (counted from 0) and lasts
  \<open>2 ^ k + 1\<close> epochs, Tcur running from 0 up to \<open>2 ^ k\<close>; the bookkeeping at the end
  of its last epoch restarts, doubling Ti. So there is no restart at the end of the
  first epoch, and the restarts fall at the end of the epochs 1, 4, 9, 18, 35, ...:
  the first after two epochs, the next ones after 3, 5, 9, 17 more, with Ti going
  1, 2, 4, 8, 16, 32. These are the values every run has at its loop heads.
\<close>

theorem warm_restart_pattern:
  assumes "args_lr_schedule A = ''cosine''"
  shows "(j \<le> 2 ^ k \<longrightarrow>
       cyc_after A (period_start k + j) = Inr (Some \<lparr> Ti = 2 ^ k, mult = 2, Tcur = int j \<rparr>)) \<and>
    (restart_at A n \<longleftrightarrow> (\<exists>k. n = period_start k + 2 ^ k)) \<and>
    filter (restart_at A) [0..<36] = [1, 4, 9, 18, 35] \<and>
    (loop_head A C w m = Some s \<longrightarrow> cyc_after A m = Inr (cyc s))"
proof (intro conjI impI)
  assume "j \<le> 2 ^ k"
  with assms show "cyc_after A (period_start k + j) =
      Inr (Some \<lparr> Ti = 2 ^ k, mult = 2, Tcur = int j \<rparr>)"
    by (rule cyc_after_period)
next
  show "restart_at A n \<longleftrightarrow> (\<exists>k. n = period_start k + 2 ^ k)"
    by (rule restart_at_iff [OF assms])
next
  have "args_lr_schedule A = args_lr_schedule (demo_args ''cosine'' 40 100 1)"
    using assms by (simp add: demo_args_def)
  then have "restart_at A = restart_at (demo_args ''cosine'' 40 100 1)"
    by (intro ext) (rule restart_at_schedule)
  then show "filter (restart_at A) [0..<36] = [1, 4, 9, 18, 35]"
    by (simp only: demo_restarts)
next
  assume "loop_head A C w m = Some s"
  then show "cyc_after A m = Inr (cyc s)"
    by (rule loop_head_cyc_after)
qed

theorem warm_restart_pattern_witness:
  "args_lr_schedule (demo_args ''cosine'' 40 100 1) = ''cosine'' \<and>
   (3::nat) \<le> 2 ^ 2 \<and> period_start 2 + 3 = 8 \<and>
   cyc_after (demo_args ''cosine'' 40 100 1) 8 = Inr (Some \<lparr> Ti = 4, mult = 2, Tcur = 3 \<rparr>) \<and>
   period_start 2 + 2 ^ 2 = 9 \<and>
   restart_at (demo_args ''cosine'' 40 100 1) 9 \<and>
   loop_head (demo_args ''cosine'' 40 100 1) demo 0 (Suc 0) =
     Some \<lparr> world = 1, tolerance = 0, best_val_loss = 1, best_val_acc = 1 / 2,
       best_result = Some \<lparr> snap_epoch = 0, snap_val_loss = 1,
         snap_val_metric = \<lparr> accuracy = 1 / 2 \<rparr>, snap_test_metric = \<lparr> accuracy = 1 / 2 \<rparr> \<rparr>,
       cyc = Some \<lparr> Ti = 1, mult = 2, Tcur = 1 \<rparr>,
       out = [LearningRate 0 0 1, TrainRecord 0 1,
              EvalRecord 0 1 \<lparr> accuracy = 1 / 2 \<rparr> \<lparr> accuracy = 1 / 2 \<rparr> 0] \<rparr> \<and>
   cyc_after (demo_args ''cosine'' 40 100 1) (Suc 0) = Inr (Some \<lparr> Ti = 1, mult = 2, Tcur = 1 \<rparr>)"
proof -
  let ?A = "demo_args ''cosine'' 40 100 1"
  let ?S1 = "\<lparr> world = 1::nat, tolerance = 0, best_val_loss = 1, best_val_acc = 1 / 2,
       best_result = Some \<lparr> snap_epoch = 0, snap_val_loss = 1,
         snap_val_metric = \<lparr> accuracy = 1 / 2 \<rparr>, snap_test_metric = \<lparr> accuracy = 1 / 2 \<rparr> \<rparr>,
       cyc = Some \<lparr> Ti = 1, mult = 2, Tcur = 1 \<rparr>,
       out = [LearningRate 0 0 1, TrainRecord 0 1,
              EvalRecord 0 1 \<lparr> accuracy = 1 / 2 \<rparr> \<lparr> accuracy = 1 / 2 \<rparr> 0] \<rparr>"
  have a: "args_lr_schedule ?A = ''cosine''"
    by (simp add: demo_args_def)
  have p: "(3::nat) \<le> 2 ^ 2" "period_start 2 + 3 = 8" "period_start 2 + 2 ^ 2 = 9"
    by (simp_all add: period_start_def)
  have h: "loop_head ?A demo 0 (Suc 0) = Some ?S1"
    by (simp add: run_defs demo_defs)
  note t = warm_restart_pattern [OF a, of 3 2 9 demo 0 "Suc 0" ?S1]
  from t p have 1: "cyc_after ?A 8 = Inr (Some \<lparr> Ti = 4, mult = 2, Tcur = 3 \<rparr>)"
    by simp
  from t p(3) have 2: "restart_at ?A 9"
    by metis
  from t h have 3: "cyc_after ?A (Suc 0) = Inr (Some \<lparr> Ti = 1, mult = 2, Tcur = 1 \<rparr>)"
    by simp
  from a p h 1 2 3 show ?thesis by simp
qed

text \<open>
  Claim C6, as stated, fails: in the second epoch of every cosine run the learning
  rate of each batch is computed with Tcur = 1 and Ti = 1, so a whole epoch is
  trained with the period position outside the half-open interval from 0 to Ti.
\<close>

theorem period_position_counterexample:
  "main (demo_args ''cosine'' 2 1 1) demo 0 =
     Inr [LearningRate 0 0 1, TrainRecord 0 1,
          EvalRecord 0 1 \<lparr> accuracy = 1 / 2 \<rparr> \<lparr> accuracy = 1 / 2 \<rparr> 0,
          LearningRate 1 0 1, TrainRecord 1 1,
          EvalRecord 1 (4 / 5) \<lparr> accuracy = 3 / 5 \<rparr> \<lparr> accuracy = 3 / 5 \<rparr> 0,
          Done,
          Result (Some \<lparr> snap_epoch = 1, snap_val_loss = 4 / 5,
            snap_val_metric = \<lparr> accuracy = 3 / 5 \<rparr>,
            snap_test_metric = \<lparr> accuracy = 3 / 5 \<rparr> \<rparr>)] \<and>
   \<not> within_period (LearningRate 1 0 1 :: unit event) \<and>
   \<not> list_all within_period
     [LearningRate 0 0 1, TrainRecord 0 1,
          EvalRecord 0 1 \<lparr> accuracy = 1 / 2 \<rparr> \<lparr> accuracy = 1 / 2 \<rparr> 0,
          LearningRate 1 0 1, TrainRecord 1 1,
          EvalRecord 1 (4 / 5) \<lparr> accuracy = 3 / 5 \<rparr> \<lparr> accuracy = 3 / 5 \<rparr> 0,
          Done,
          Result (Some \<lparr> snap_epoch = 1, snap_val_loss = 4 / 5,
            snap_val_metric = \<lparr> accuracy = 3 / 5 \<rparr>,
            snap_test_metric = \<lparr> accuracy = 3 / 5 \<rparr> \<rparr>) :: unit event]"
  by (simp add: run_defs demo_defs)

text \<open>
  Claim C6, amended. At the head of every epoch of a cosine run Tcur lies in the
  closed interval from 0 to Ti, with Ti at least 1, and these are the values every
  batch of the epoch computes its learning rate with; Tcur equals Ti exactly in the
  epochs that end with a restart, the last epoch of each period. So every learning
  rate a run computes has its period position between 0 and Ti, both included.
\<close>

theorem period_position_closed:
  "(args_lr_schedule A = ''cosine'' \<and> loop_head A C w n = Some s \<longrightarrow>
      (\<exists>c. cyc s = Some c \<and> 1 \<le> Ti c \<and> 0 \<le> Tcur c \<and> Tcur c \<le> Ti c \<and>
         (Tcur c = Ti c \<longleftrightarrow> restart_at A n) \<and>
         lr_events A (cyc s) bs =
           map (\<lambda>b. LearningRate (Tcur c) (epoch_progress b) (Ti c)) bs)) \<and>
   (loop_head A C w n = Some s \<longrightarrow> (\<forall>ev \<in> set (out s). within_closed_period ev)) \<and>
   (main A C w = Inr lg \<longrightarrow> (\<forall>ev \<in> set lg. within_closed_period ev))"
proof (intro conjI impI)
  assume a: "args_lr_schedule A = ''cosine'' \<and> loop_head A C w n = Some s"
  then have cos: "args_lr_schedule A = ''cosine''" and h: "loop_head A C w n = Some s"
    by simp_all
  note ok = loop_head_cyc_ok [OF h]
  from ok cos obtain c where c: "cyc s = Some c"
    by (cases "cyc s") (simp_all add: cyc_ok_def)
  from ok cos c have b: "1 \<le> Ti c" "0 \<le> Tcur c" "Tcur c \<le> Ti c"
    by (simp_all add: cyc_ok_def)
  from ok c have ok': "cyc_ok A (Some c)" by simp
  have r: "restart_at A n \<longleftrightarrow> Tcur c = Ti c"
    unfolding restart_at_def loop_head_cyc_after [OF h] c
    using restart_at_position [OF ok' cos] cos by simp
  have l: "lr_events A (cyc s) bs =
           map (\<lambda>b. LearningRate (Tcur c) (epoch_progress b) (Ti c)) bs"
    unfolding c lr_events_Some using cos by simp
  from c b r l show "\<exists>c. cyc s = Some c \<and> 1 \<le> Ti c \<and> 0 \<le> Tcur c \<and> Tcur c \<le> Ti c \<and>
         (Tcur c = Ti c \<longleftrightarrow> restart_at A n) \<and>
         lr_events A (cyc s) bs =
           map (\<lambda>b. LearningRate (Tcur c) (epoch_progress b) (Ti c)) bs"
    by (intro exI [of _ c]) simp
next
  assume "loop_head A C w n = Some s"
  then show "\<forall>ev \<in> set (out s). within_closed_period ev"
    by (rule loop_head_learning_rates)
next
  assume m: "main A C w = Inr lg"
  from m obtain s k where h: "loop_head A C w k = Some s"
    and lg: "lg = out s @ [Done, Result (best_result s)]"
    by (rule main_Inr)
  from loop_head_learning_rates [OF h] lg
  show "\<forall>ev \<in> set lg. within_closed_period ev"
    by simp
qed

theorem period_position_closed_witness:
  "args_lr_schedule (demo_args ''cosine'' 2 1 1) = ''cosine'' \<and>
   loop_head (demo_args ''cosine'' 2 1 1) demo 0 (Suc 0) =
     Some \<lparr> world = 1, tolerance = 0, best_val_loss = 1, best_val_acc = 1 / 2,
       best_result = Some \<lparr> snap_epoch = 0, snap_val_loss = 1,
         snap_val_metric = \<lparr> accuracy = 1 / 2 \<rparr>, snap_test_metric = \<lparr> accuracy = 1 / 2 \<rparr> \<rparr>,
       cyc = Some \<lparr> Ti = 1, mult = 2, Tcur = 1 \<rparr>,
       out = [LearningRate 0 0 1, TrainRecord 0 1,
              EvalRecord 0 1 \<lparr> accuracy = 1 / 2 \<rparr> \<lparr> accuracy = 1 / 2 \<rparr> 0] \<rparr> \<and>
   restart_at (demo_args ''cosine'' 2 1 1) (Suc 0) \<and>
   main (demo_args ''cosine'' 2 1 1) demo 0 =
     Inr [LearningRate 0 0 1, TrainRecord 0 1,
          EvalRecord 0 1 \<lparr> accuracy = 1 / 2 \<rparr> \<lparr> accuracy = 1 / 2 \<rparr> 0,
          LearningRate 1 0 1, TrainRecord 1 1,
          EvalRecord 1 (4 / 5) \<lparr> accuracy = 3 / 5 \<rparr> \<lparr> accuracy = 3 / 5 \<rparr> 0,
          Done,
          Result (Some \<lparr> snap_epoch = 1, snap_val_loss = 4 / 5,
            snap_val_metric = \<lparr> accuracy = 3 / 5 \<rparr>,
            snap_test_metric = \<lparr> accuracy = 3 / 5 \<rparr> \<rparr>)] \<and>
   list_all within_closed_period
     [LearningRate 0 0 1, TrainRecord 0 1,
          EvalRecord 0 1 \<lparr> accuracy = 1 / 2 \<rparr> \<lparr> accuracy = 1 / 2 \<rparr> 0,
          LearningRate 1 0 1, TrainRecord 1 1,
          EvalRecord 1 (4 / 5) \<lparr> accuracy = 3 / 5 \<rparr> \<lparr> accuracy = 3 / 5 \<rparr> 0,
          Done,
          Result (Some \<lparr> snap_epoch = 1, snap_val_loss = 4 / 5,
            snap_val_metric = \<lparr> accuracy = 3 / 5 \<rparr>,
            snap_test_metric = \<lparr> accuracy = 3 / 5 \<rparr> \<rparr>) :: unit event]"
proof -
  let ?A = "demo_args ''cosine'' 2 1 1"
  let ?S1 = "\<lparr> world = 1::nat, tolerance = 0, best_val_loss = 1, best_val_acc = 1 / 2,
       best_result = Some \<lparr> snap_epoch = 0, snap_val_loss = 1,
         snap_val_metric = \<lparr> accuracy = 1 / 2 \<rparr>, snap_test_metric = \<lparr> accuracy = 1 / 2 \<rparr> \<rparr>,
       cyc = Some \<lparr> Ti = 1, mult = 2, Tcur = 1 \<rparr>,
       out = [LearningRate 0 0 1, TrainRecord 0 1,
              EvalRecord 0 1 \<lparr> accuracy = 1 / 2 \<rparr> \<lparr> accuracy = 1 / 2 \<rparr> 0] \<rparr>"
  let ?lg = "[LearningRate 0 0 1, TrainRecord 0 1,
          EvalRecord 0 1 \<lparr> accuracy = 1 / 2 \<rparr> \<lparr> accuracy = 1 / 2 \<rparr> 0,
          LearningRate 1 0 1, TrainRecord 1 1,
          EvalRecord 1 (4 / 5) \<lparr> accuracy = 3 / 5 \<rparr> \<lparr> accuracy = 3 / 5 \<rparr> 0,
          Done,
          Result (Some \<lparr> snap_epoch = 1, snap_val_loss = 4 / 5,
            snap_val_metric = \<lparr> accuracy = 3 / 5 \<rparr>,
            snap_test_metric = \<lparr> accuracy = 3 / 5 \<rparr> \<rparr>) :: unit event]"
  have a: "args_lr_schedule ?A = ''cosine''"
    by (simp add: demo_args_def)
  have h: "loop_head ?A demo 0 (Suc 0) = Some ?S1"
    by (simp add: run_defs demo_defs)
  have m: "main ?A demo 0 = Inr ?lg"
    by (simp add: run_defs demo_defs)
  note t = period_position_closed [of ?A demo 0 "Suc 0" ?S1 "[]" ?lg]
  from conjunct1 [OF t] a h obtain c where
    "cyc ?S1 = Some c" "Tcur c = Ti c \<longleftrightarrow> restart_at ?A (Suc 0)"
    by blast
  then have 1: "restart_at ?A (Suc 0)"
    by auto
  from conjunct2 [OF conjunct2 [OF t]] m have "\<forall>ev \<in> set ?lg. within_closed_period ev"
    by blast
  then have 2: "list_all within_closed_period ?lg"
    unfolding list_all_iff .
  from a h 1 m 2 show ?thesis by blast
qed

text \<open>
  Claim C7. The evaluation pass asks the problem for the batches of the split with
  shuffling off and runs one forward pass per batch with \<open>train = False\<close>, in the
  order of the split. It returns the batch losses added up in that order with the
  addition of Python floats, starting from 0 (a rounded sum, not the exact one), and
  the value of the metric function applied once, to the stacked targets and the
  stacked predictions of the whole split. The world it leaves is the one the forward
  passes leave: the pass gives the same result whatever the gradient step and the
  learning-rate setter are, so it takes no gradient step, and when a forward pass
  with \<open>train = False\<close> leaves the world as it is, so does the whole pass. A split
  without batches makes \<^verbatim>\<open>np.vstack\<close> raise, and a mode other than val and
  test fails the assertion. In the loop the validation pass runs in the world that
  \<^verbatim>\<open>model.eval()\<close> leaves, the test pass in the world the validation pass leaves,
  and the round hands on the world the test pass leaves.
\<close>

theorem evaluate_pass:
  "evaluate C w n mode =
     (if mode \<noteq> ''val'' \<and> mode \<noteq> ''test'' then Inl AssertionError
      else if iterate C w mode False n = [] then Inl ValueError
      else
        (case forward_passes C w (iterate C w mode False n) of
           (ps, w') \<Rightarrow>
             Inr (foldl (float_add C) 0 (batch_losses C ps (iterate C w mode False n)),
                  metric_fn C
                    (vstack C (map (\<lambda>b. to_numpy C (targets b)) (iterate C w mode False n)))
                    (vstack C (map (to_numpy C) ps)),
                  w'))) \<and>
   evaluate (C\<lparr> backward_step := g, set_lr := h \<rparr>) w n mode = evaluate C w n mode \<and>
   ((\<forall>v i. snd (model C v i False) = v) \<longrightarrow>
      (\<forall>l m w'. evaluate C w n mode = Inr (l, m, w') \<longrightarrow> w' = w)) \<and>
   (evaluation_round A C e s = Inr s' \<longrightarrow>
      (\<exists>loss vm w1 tloss tm.
         evaluate C (model_eval C (world s)) (args_batch_size A) ''val'' = Inr (loss, vm, w1) \<and>
         evaluate C w1 (args_batch_size A) ''test'' = Inr (tloss, tm, world s') \<and>
         out s' = out s @ [EvalRecord e loss vm tm (tolerance s')]))"
proof (intro conjI impI)
  show "evaluate C w n mode =
     (if mode \<noteq> ''val'' \<and> mode \<noteq> ''test'' then Inl AssertionError
      else if iterate C w mode False n = [] then Inl ValueError
      else
        (case forward_passes C w (iterate C w mode False n) of
           (ps, w') \<Rightarrow>
             Inr (foldl (float_add C) 0 (batch_losses C ps (iterate C w mode False n)),
                  metric_fn C
                    (vstack C (map (\<lambda>b. to_numpy C (targets b)) (iterate C w mode False n)))
                    (vstack C (map (to_numpy C) ps)),
                  w')))"
    by (rule evaluate_closed)
next
  show "evaluate (C\<lparr> backward_step := g, set_lr := h \<rparr>) w n mode = evaluate C w n mode"
    by (rule evaluate_no_step)
next
  assume p: "\<forall>v i. snd (model C v i False) = v"
  show "\<forall>l m w'. evaluate C w n mode = Inr (l, m, w') \<longrightarrow> w' = w"
  proof (intro allI impI)
    fix l m w'
    assume "evaluate C w n mode = Inr (l, m, w')"
    with p show "w' = w"
      by (rule evaluate_pure)
  qed
next
  assume r: "evaluation_round A C e s = Inr s'"
  from evaluation_round_passes [OF r] obtain loss vm w1 tloss tm w2 where
    v: "evaluate C (model_eval C (world s)) (args_batch_size A) ''val'' = Inr (loss, vm, w1)" and
    t: "evaluate C w1 (args_batch_size A) ''test'' = Inr (tloss, tm, w2)"
    by blast
  from evaluation_round_eq [OF v t, of e] r
  have s': "s' = (if improves (accuracy vm) loss s
          then s\<lparr> tolerance := 0, best_val_loss := loss, best_val_acc := accuracy vm,
               best_result := Some \<lparr> snap_epoch = e, snap_val_loss = loss,
                 snap_val_metric = vm, snap_test_metric = tm \<rparr>,
               world := w2,
               out := out s @ [EvalRecord e loss vm tm 0] \<rparr>
          else s\<lparr> tolerance := tolerance s + 1, world := w2,
               out := out s @ [EvalRecord e loss vm tm (tolerance s + 1)] \<rparr>)"
    by simp
  then have "world s' = w2" "out s' = out s @ [EvalRecord e loss vm tm (tolerance s')]"
    by simp_all
  with v t show "\<exists>loss vm w1 tloss tm.
         evaluate C (model_eval C (world s)) (args_batch_size A) ''val'' = Inr (loss, vm, w1) \<and>
         evaluate C w1 (args_batch_size A) ''test'' = Inr (tloss, tm, world s') \<and>
         out s' = out s @ [EvalRecord e loss vm tm (tolerance s')]"
    by blast
qed

theorem evaluate_pass_witness:
  "evaluate (demo_collab demo_acc demo_loss (\<lambda>m. 2)) 3 4 ''val''
     = Inr (8 / 5, \<lparr> accuracy = 3 / 5 \<rparr>, 3) \<and>
   evaluate (demo_collab demo_acc demo_loss (\<lambda>m. 0)) 3 4 ''val'' = Inl ValueError \<and>
   evaluate (demo_collab demo_acc demo_loss (\<lambda>m. 2)) 3 4 ''train'' = Inl AssertionError \<and>
   evaluate ((demo_collab (\<lambda>n. 4 / 5) (\<lambda>n. 3 / 5) (\<lambda>m. 3))
      \<lparr> float_add := (\<lambda>x y. of_int \<lfloor>x + y\<rfloor>) \<rparr>) 3 4 ''val''
     = Inr (0, \<lparr> accuracy = 4 / 5 \<rparr>, 3) \<and>
   evaluate ((demo_collab demo_acc demo_loss (\<lambda>m. 3))
      \<lparr> model := (\<lambda>w i train. (w, Suc w)) \<rparr>) 0 4 ''test''
     = Inr (14 / 5, \<lparr> accuracy = 1 / 2 \<rparr>, 3) \<and>
   evaluate ((demo_collab demo_acc demo_loss (\<lambda>m. 2))
      \<lparr> backward_step := (\<lambda>w i t. 0), set_lr := (\<lambda>w lr. 7) \<rparr>) 3 4 ''val''
     = Inr (8 / 5, \<lparr> accuracy = 3 / 5 \<rparr>, 3) \<and>
   evaluation_round (demo_args ''constant'' 5 1 1) (demo_const (4 / 5) (2 / 5)) 7 demo_state =
     Inr (demo_state \<lparr> tolerance := 0, best_val_loss := 2 / 5, best_val_acc := 4 / 5,
       best_result := Some \<lparr> snap_epoch = 7, snap_val_loss = 2 / 5,
         snap_val_metric = \<lparr> accuracy = 4 / 5 \<rparr>, snap_test_metric = \<lparr> accuracy = 4 / 5 \<rparr> \<rparr>,
       out := [EvalRecord 7 (2 / 5) \<lparr> accuracy = 4 / 5 \<rparr> \<lparr> accuracy = 4 / 5 \<rparr> 0] \<rparr>) \<and>
   (\<exists>loss vm w1 tloss tm.
      evaluate (demo_const (4 / 5) (2 / 5))
        (model_eval (demo_const (4 / 5) (2 / 5)) (world demo_state)) 4 ''val''
        = Inr (loss, vm, w1) \<and>
      evaluate (demo_const (4 / 5) (2 / 5)) w1 4 ''test'' = Inr (tloss, tm, 0) \<and>
      [EvalRecord 7 (2 / 5) \<lparr> accuracy = 4 / 5 \<rparr> \<lparr> accuracy = 4 / 5 \<rparr> 0]
        = [EvalRecord 7 loss vm tm 0])"
proof -
  let ?A = "demo_args ''constant'' 5 1 1"
  let ?C = "demo_const (4 / 5) (2 / 5)"
  let ?D = "demo_collab demo_acc demo_loss (\<lambda>m. 2)"
  let ?s' = "demo_state \<lparr> tolerance := 0, best_val_loss := 2 / 5, best_val_acc := 4 / 5,
       best_result := Some \<lparr> snap_epoch = 7, snap_val_loss = 2 / 5,
         snap_val_metric = \<lparr> accuracy = 4 / 5 \<rparr>, snap_test_metric = \<lparr> accuracy = 4 / 5 \<rparr> \<rparr>,
       out := [EvalRecord 7 (2 / 5) \<lparr> accuracy = 4 / 5 \<rparr> \<lparr> accuracy = 4 / 5 \<rparr> 0] \<rparr>"
  have r: "evaluation_round ?A ?C 7 demo_state = Inr ?s'"
    by (simp add: evaluation_round_def evaluate_closed batch_losses_def improves_def demo_defs)
  note ev = conjunct1 [OF evaluate_pass]
  have 1: "evaluate ?D 3 4 ''val'' = Inr (8 / 5, \<lparr> accuracy = 3 / 5 \<rparr>, 3)"
    by (simp add: ev batch_losses_def demo_defs numeral_2_eq_2)
  have 2: "evaluate (demo_collab demo_acc demo_loss (\<lambda>m. 0)) 3 4 ''val'' = Inl ValueError"
    by (simp add: ev demo_defs)
  have 3: "evaluate ?D 3 4 ''train'' = Inl AssertionError"
    by (simp add: ev demo_defs)
  have 4: "evaluate ((demo_collab (\<lambda>n. 4 / 5) (\<lambda>n. 3 / 5) (\<lambda>m. 3))
      \<lparr> float_add := (\<lambda>x y. of_int \<lfloor>x + y\<rfloor>) \<rparr>) 3 4 ''val''
     = Inr (0, \<lparr> accuracy = 4 / 5 \<rparr>, 3)"
    by (simp add: ev batch_losses_def demo_defs numeral_3_eq_3)
  have 5: "evaluate ((demo_collab demo_acc demo_loss (\<lambda>m. 3))
      \<lparr> model := (\<lambda>w i train. (w, Suc w)) \<rparr>) 0 4 ''test''
     = Inr (14 / 5, \<lparr> accuracy = 1 / 2 \<rparr>, 3)"
    by (simp add: ev batch_losses_def demo_defs numeral_3_eq_3)
  from conjunct1 [OF conjunct2 [OF evaluate_pass
      [where C = ?D and g = "\<lambda>w i t. 0" and h = "\<lambda>w lr. 7" and w = 3 and n = 4 and mode = "''val''"]]] 1
  have 6: "evaluate (?D \<lparr> backward_step := (\<lambda>w i t. 0), set_lr := (\<lambda>w lr. 7) \<rparr>) 3 4 ''val''
     = Inr (8 / 5, \<lparr> accuracy = 3 / 5 \<rparr>, 3)"
    by simp
  have pure: "\<forall>v i. snd (model ?D v i False) = v"
    by (simp add: demo_defs)
  from conjunct1 [OF conjunct2 [OF conjunct2 [OF evaluate_pass
      [where C = ?D and w = 3 and n = 4 and mode = "''val''"]]], THEN mp, OF pure]
  have 8: "\<forall>l m w'. evaluate ?D 3 4 ''val'' = Inr (l, m, w') \<longrightarrow> w' = 3" .
  from conjunct2 [OF conjunct2 [OF conjunct2 [OF evaluate_pass]], THEN mp, OF r]
  have 7: "\<exists>loss vm w1 tloss tm.
      evaluate ?C (model_eval ?C (world demo_state)) 4 ''val'' = Inr (loss, vm, w1) \<and>
      evaluate ?C w1 4 ''test'' = Inr (tloss, tm, 0) \<and>
      [EvalRecord 7 (2 / 5) \<lparr> accuracy = 4 / 5 \<rparr> \<lparr> accuracy = 4 / 5 \<rparr> 0]
        = [EvalRecord 7 loss vm tm 0]"
    by (simp add: demo_args_def demo_state_def)
  from 1 2 3 4 5 6 r 7 show ?thesis by blast
qed

text \<open>
  Claim C8. A run that completes has left the loop at a loop head where the epochs
  are exhausted or the tolerance counter exceeds the limit, and its last line is
  \<^verbatim>\<open>print(best_result)\<close>. What is printed is the text None exactly when no
  evaluation round of the run beat the initial values (accuracy 0, loss 100000);
  otherwise it is the snapshot of a round of the run that no round of the run beats.
  Every run completes when the log interval is not 0 and the validation and test
  splits are never empty.
\<close>

theorem final_output:
  "(main A C w = Inr lg \<longrightarrow>
      (\<exists>k s. loop_head A C w k = Some s \<and>
         (args_epochs A \<le> int k \<or> args_tolerance A < tolerance s) \<and>
         lg = out s @ [Done, Result (best_result s)] \<and>
         (best_result s = None \<longleftrightarrow>
            (\<forall>e l vm tm t. EvalRecord e l vm tm t \<in> set (out s) \<longrightarrow>
               \<not> beats_sentinel (accuracy vm) l)) \<and>
         (\<forall>snap. best_result s = Some snap \<longrightarrow>
            EvalRecord (snap_epoch snap) (snap_val_loss snap) (snap_val_metric snap)
              (snap_test_metric snap) 0 \<in> set (out s) \<and>
            (\<forall>e l vm tm t. EvalRecord e l vm tm t \<in> set (out s) \<longrightarrow>
               \<not> (accuracy vm > accuracy (snap_val_metric snap) \<or>
                  (accuracy vm = accuracy (snap_val_metric snap) \<and> l < snap_val_loss snap)))))) \<and>
   (args_log_interval A \<noteq> 0 \<and>
    (\<forall>v. iterate C v ''val'' False (args_batch_size A) \<noteq> []) \<and>
    (\<forall>v. iterate C v ''test'' False (args_batch_size A) \<noteq> []) \<longrightarrow>
      (\<exists>lg. main A C w = Inr lg))"
proof (intro conjI impI)
  assume t: "args_log_interval A \<noteq> 0 \<and>
    (\<forall>v. iterate C v ''val'' False (args_batch_size A) \<noteq> []) \<and>
    (\<forall>v. iterate C v ''test'' False (args_batch_size A) \<noteq> [])"
  have "\<exists>s'. epoch_loop A C 0 (init_state A w) = Inr s'"
    by (rule epoch_loop_total [OF init_cyc_ok]) (use t in simp_all)
  then show "\<exists>lg. main A C w = Inr lg"
    by (auto simp: main_def)
next
  assume m: "main A C w = Inr lg"
  from m obtain s k where h: "loop_head A C w k = Some s"
    and lg: "lg = out s @ [Done, Result (best_result s)]"
    and stop: "args_epochs A \<le> int k \<or> tolerance s > args_tolerance A"
    by (rule main_Inr)
  note inv = loop_head_best [OF h]
  have none: "best_result s = None \<longleftrightarrow>
      (\<forall>e l vm tm t. EvalRecord e l vm tm t \<in> set (out s) \<longrightarrow>
         \<not> beats_sentinel (accuracy vm) l)"
  proof
    assume n: "best_result s = None"
    show "\<forall>e l vm tm t. EvalRecord e l vm tm t \<in> set (out s) \<longrightarrow>
         \<not> beats_sentinel (accuracy vm) l"
    proof (intro allI impI)
      fix e l vm tm t
      assume "EvalRecord e l vm tm t \<in> set (out s)"
      from best_inv_rounds [OF inv this] best_inv_None [OF inv n]
      show "\<not> beats_sentinel (accuracy vm) l"
        by (simp add: improves_def beats_sentinel_def)
    qed
  next
    assume a: "\<forall>e l vm tm t. EvalRecord e l vm tm t \<in> set (out s) \<longrightarrow>
         \<not> beats_sentinel (accuracy vm) l"
    show "best_result s = None"
    proof (cases "best_result s")
      case None
      then show ?thesis .
    next
      case (Some snap)
      from best_inv_Some(3,4) [OF inv Some] a show ?thesis by blast
    qed
  qed
  have some: "\<forall>snap. best_result s = Some snap \<longrightarrow>
            EvalRecord (snap_epoch snap) (snap_val_loss snap) (snap_val_metric snap)
              (snap_test_metric snap) 0 \<in> set (out s) \<and>
            (\<forall>e l vm tm t. EvalRecord e l vm tm t \<in> set (out s) \<longrightarrow>
               \<not> (accuracy vm > accuracy (snap_val_metric snap) \<or>
                  (accuracy vm = accuracy (snap_val_metric snap) \<and> l < snap_val_loss snap)))"
  proof (intro allI impI conjI)
    fix snap assume b: "best_result s = Some snap"
    from best_inv_Some(4) [OF inv b]
    show "EvalRecord (snap_epoch snap) (snap_val_loss snap) (snap_val_metric snap)
              (snap_test_metric snap) 0 \<in> set (out s)" .
    fix e l vm tm t
    assume "EvalRecord e l vm tm t \<in> set (out s)"
    from best_inv_rounds [OF inv this] best_inv_Some(1,2) [OF inv b]
    show "\<not> (accuracy vm > accuracy (snap_val_metric snap) \<or>
                  (accuracy vm = accuracy (snap_val_metric snap) \<and> l < snap_val_loss snap))"
      by (simp add: improves_def)
  qed
  from h stop lg none some
  show "\<exists>k s. loop_head A C w k = Some s \<and>
         (args_epochs A \<le> int k \<or> args_tolerance A < tolerance s) \<and>
         lg = out s @ [Done, Result (best_result s)] \<and>
         (best_result s = None \<longleftrightarrow>
            (\<forall>e l vm tm t. EvalRecord e l vm tm t \<in> set (out s) \<longrightarrow>
               \<not> beats_sentinel (accuracy vm) l)) \<and>
         (\<forall>snap. best_result s = Some snap \<longrightarrow>
            EvalRecord (snap_epoch snap) (snap_val_loss snap) (snap_val_metric snap)
              (snap_test_metric snap) 0 \<in> set (out s) \<and>
            (\<forall>e l vm tm t. EvalRecord e l vm tm t \<in> set (out s) \<longrightarrow>
               \<not> (accuracy vm > accuracy (snap_val_metric snap) \<or>
                  (accuracy vm = accuracy (snap_val_metric snap) \<and> l < snap_val_loss snap))))"
    by (intro exI [of _ k] exI [of _ s] conjI)
qed

theorem final_output_witness:
  "main (demo_args ''constant'' 5 0 1) (demo_const 0 100000) 0 =
     Inr [TrainRecord 0 100000,
          EvalRecord 0 100000 \<lparr> accuracy = 0 \<rparr> \<lparr> accuracy = 0 \<rparr> 1,
          Done, Result None] \<and>
   \<not> beats_sentinel (accuracy \<lparr> accuracy = 0 \<rparr>) 100000 \<and>
   (\<exists>k s. loop_head (demo_args ''constant'' 5 0 1) (demo_const 0 100000) 0 k = Some s \<and>
      out s = [TrainRecord 0 100000,
               EvalRecord 0 100000 \<lparr> accuracy = 0 \<rparr> \<lparr> accuracy = 0 \<rparr> 1] \<and>
      best_result s = None \<and>
      args_tolerance (demo_args ''constant'' 5 0 1) < tolerance s) \<and>
   args_log_interval (demo_args ''cosine'' 5 1 1) \<noteq> 0 \<and>
   (\<forall>v. iterate demo v ''val'' False (args_batch_size (demo_args ''cosine'' 5 1 1)) \<noteq> []) \<and>
   (\<forall>v. iterate demo v ''test'' False (args_batch_size (demo_args ''cosine'' 5 1 1)) \<noteq> []) \<and>
   (\<exists>lg. main (demo_args ''cosine'' 5 1 1) demo 0 = Inr lg)"
proof -
  let ?A = "demo_args ''constant'' 5 0 1"
  let ?C = "demo_const 0 100000"
  let ?B = "demo_args ''cosine'' 5 1 1"
  let ?pre = "[TrainRecord 0 100000,
          EvalRecord 0 100000 \<lparr> accuracy = 0 \<rparr> \<lparr> accuracy = 0 \<rparr> 1 :: unit event]"
  have m: "main ?A ?C 0 = Inr (?pre @ [Done, Result None])"
    by (simp add: run_defs demo_defs)
  from conjunct1 [OF final_output, THEN mp, OF m] obtain k s where
    h: "loop_head ?A ?C 0 k = Some s" and
    stop: "args_epochs ?A \<le> int k \<or> args_tolerance ?A < tolerance s" and
    lg: "?pre @ [Done, Result None] = out s @ [Done, Result (best_result s)]"
    by blast
  from lg have o: "out s = ?pre" "best_result s = None"
    by simp_all
  from loop_head_rounds [OF h] o have "tolerance s = 1"
    by (simp add: rounds_since_best_def)
  then have t: "args_tolerance ?A < tolerance s"
    by (simp add: demo_args_def)
  from h o t have 1: "\<exists>k s. loop_head ?A ?C 0 k = Some s \<and> out s = ?pre \<and>
      best_result s = None \<and> args_tolerance ?A < tolerance s"
    by blast
  have 2: "args_log_interval ?B \<noteq> 0"
    "\<forall>v. iterate demo v ''val'' False (args_batch_size ?B) \<noteq> []"
    "\<forall>v. iterate demo v ''test'' False (args_batch_size ?B) \<noteq> []"
    by (simp_all add: demo_defs)
  from conjunct2 [OF final_output, THEN mp, of ?B demo 0] 2
  have 3: "\<exists>lg. main ?B demo 0 = Inr lg"
    by blast
  have 4: "\<not> beats_sentinel (accuracy \<lparr> accuracy = 0 \<rparr>) 100000"
    by (simp add: beats_sentinel_def)
  from m 1 2 3 4 show ?thesis by simp
qed

text \<open>
  Claim C9. The first evaluation round is compared with the initial values, accuracy
  0 and loss 100000: when its accuracy is 0 and its loss is at least 100000 it leaves
  the best result absent and takes the tolerance counter from 0 to 1. When every
  round of a run is like that, the run ends by printing None.
\<close>

theorem sentinel_round:
  "(epoch_body A C 0 (init_state A w) = Inr s' \<and>
    last (out s') = EvalRecord 0 l vm tm t \<and> accuracy vm = 0 \<and> 100000 \<le> l \<longrightarrow>
      best_result s' = None \<and> tolerance s' = 1 \<and> t = 1) \<and>
   (main A C w = Inr lg \<and>
    (\<forall>e l vm tm t. EvalRecord e l vm tm t \<in> set lg \<longrightarrow> accuracy vm = 0 \<and> 100000 \<le> l) \<longrightarrow>
      last lg = Result None)"
proof (intro conjI impI)
  assume a: "epoch_body A C 0 (init_state A w) = Inr s' \<and>
    last (out s') = EvalRecord 0 l vm tm t \<and> accuracy vm = 0 \<and> 100000 \<le> l"
    (is "epoch_body A C 0 ?s0 = Inr s' \<and> _")
  then have b: "epoch_body A C 0 ?s0 = Inr s'"
    and la: "last (out s') = EvalRecord 0 l vm tm t" and acc: "accuracy vm = 0" "100000 \<le> l"
    by simp_all
  have z: "(0::int) mod args_log_interval A = 0" by simp
  from epoch_body_round [OF b z] obtain loss vm' tm' where
    o: "last (out s') = EvalRecord 0 loss vm' tm' (tolerance s')" and
    i: "if improves (accuracy vm') loss ?s0
        then tolerance s' = 0 \<and> best_val_acc s' = accuracy vm' \<and> best_val_loss s' = loss \<and>
          best_result s' = Some \<lparr> snap_epoch = 0, snap_val_loss = loss,
            snap_val_metric = vm', snap_test_metric = tm' \<rparr>
        else tolerance s' = tolerance ?s0 + 1 \<and>
          best_val_acc s' = best_val_acc ?s0 \<and>
          best_val_loss s' = best_val_loss ?s0 \<and>
          best_result s' = best_result ?s0"
    by blast
  from o la have eq: "loss = l" "vm' = vm" "t = tolerance s'" by simp_all
  from acc have "\<not> improves (accuracy vm') loss ?s0"
    unfolding eq by (simp add: improves_def init_state_def)
  with i have "tolerance s' = tolerance ?s0 + 1" "best_result s' = best_result ?s0"
    by simp_all
  then have "tolerance s' = 1" "best_result s' = None"
    by (simp_all add: init_state_def)
  with eq show "best_result s' = None" "tolerance s' = 1" "t = 1" by simp_all
next
  assume a: "main A C w = Inr lg \<and>
    (\<forall>e l vm tm t. EvalRecord e l vm tm t \<in> set lg \<longrightarrow> accuracy vm = 0 \<and> 100000 \<le> l)"
  then have m: "main A C w = Inr lg" by simp
  from m obtain s k where h: "loop_head A C w k = Some s"
    and lg: "lg = out s @ [Done, Result (best_result s)]"
    by (rule main_Inr)
  have "best_result s = None"
  proof (cases "best_result s")
    case None
    then show ?thesis .
  next
    case (Some snap)
    with loop_head_best [OF h] have
      "beats_sentinel (accuracy (snap_val_metric snap)) (snap_val_loss snap)"
      "EvalRecord (snap_epoch snap) (snap_val_loss snap) (snap_val_metric snap)
            (snap_test_metric snap) 0 \<in> set (out s)"
      by (auto simp: best_inv_def)
    moreover have "accuracy (snap_val_metric snap) = 0 \<and> 100000 \<le> snap_val_loss snap"
    proof -
      from calculation(2) lg
      have "EvalRecord (snap_epoch snap) (snap_val_loss snap) (snap_val_metric snap)
            (snap_test_metric snap) 0 \<in> set lg"
        by simp
      moreover from a have "\<And>e l vm tm t. EvalRecord e l vm tm t \<in> set lg \<Longrightarrow>
          accuracy vm = 0 \<and> 100000 \<le> l"
        by blast
      ultimately show ?thesis by blast
    qed
    ultimately show ?thesis by (simp add: beats_sentinel_def)
  qed
  with lg show "last lg = Result None" by simp
qed

theorem sentinel_round_witness:
  "epoch_body (demo_args ''constant'' 5 0 1) (demo_const 0 100000) 0
     (init_state (demo_args ''constant'' 5 0 1) 0) =
     Inr \<lparr> world = 1, tolerance = 1, best_val_loss = 100000, best_val_acc = 0,
       best_result = None, cyc = None,
       out = [TrainRecord 0 100000,
              EvalRecord 0 100000 \<lparr> accuracy = 0 \<rparr> \<lparr> accuracy = 0 \<rparr> 1] \<rparr> \<and>
   accuracy \<lparr> accuracy = 0 \<rparr> = 0 \<and> (100000::real) \<le> 100000 \<and>
   main (demo_args ''constant'' 5 0 1) (demo_const 0 100000) 0 =
     Inr [TrainRecord 0 100000,
          EvalRecord 0 100000 \<lparr> accuracy = 0 \<rparr> \<lparr> accuracy = 0 \<rparr> 1,
          Done, Result None] \<and>
   last [TrainRecord 0 100000,
          EvalRecord 0 100000 \<lparr> accuracy = 0 \<rparr> \<lparr> accuracy = 0 \<rparr> 1,
          Done, Result None :: unit event] = Result None"
proof -
  let ?A = "demo_args ''constant'' 5 0 1"
  let ?C = "demo_const 0 100000"
  let ?S = "\<lparr> world = 1::nat, tolerance = 1, best_val_loss = 100000, best_val_acc = 0,
       best_result = None, cyc = None,
       out = [TrainRecord 0 100000,
              EvalRecord 0 100000 \<lparr> accuracy = 0 \<rparr> \<lparr> accuracy = 0 \<rparr> 1] \<rparr>"
  let ?lg = "[TrainRecord 0 100000,
          EvalRecord 0 100000 \<lparr> accuracy = 0 \<rparr> \<lparr> accuracy = 0 \<rparr> 1,
          Done, Result None :: unit event]"
  have b: "epoch_body ?A ?C 0 (init_state ?A 0) = Inr ?S"
    by (simp add: run_defs demo_defs)
  have m: "main ?A ?C 0 = Inr ?lg"
    by (simp add: run_defs demo_defs)
  have q: "\<forall>e l vm tm t. EvalRecord e l vm tm t \<in> set ?lg \<longrightarrow> accuracy vm = 0 \<and> 100000 \<le> l"
    by auto
  have la: "last (out ?S) = EvalRecord 0 100000 \<lparr> accuracy = 0 \<rparr> \<lparr> accuracy = 0 \<rparr> 1"
    by simp
  from conjunct1 [OF sentinel_round, THEN mp, of ?A ?C 0 ?S 100000 "\<lparr> accuracy = 0 \<rparr>"
      "\<lparr> accuracy = 0 \<rparr>" 1] b la
  have "best_result ?S = None \<and> tolerance ?S = 1"
    by simp
  moreover from conjunct2 [OF sentinel_round, THEN mp, of ?A ?C 0 ?lg] m q
  have "last ?lg = Result None"
    by blast
  ultimately show ?thesis using b m by simp
qed

text \<open>
  Claim C10. For every log interval of at least 1 the number 0 is a multiple of it,
  so on epoch 0 the loop body is the training half followed by the evaluation round:
  the first evaluation is never skipped. Every run that gets past its first epoch
  has written the evaluation record of epoch 0 as the last line of that epoch.
\<close>

theorem first_epoch_evaluates:
  assumes "1 \<le> args_log_interval A"
  shows "(0::int) mod args_log_interval A = 0 \<and>
    epoch_body A C 0 s =
      (case train_epoch A C 0 s of Inl e \<Rightarrow> Inl e | Inr s1 \<Rightarrow> evaluation_round A C 0 s1) \<and>
    (loop_head A C w (Suc 0) = Some s' \<longrightarrow>
       (\<exists>loss vm tm. last (out s') = EvalRecord 0 loss vm tm (tolerance s')))"
proof (intro conjI impI)
  show "(0::int) mod args_log_interval A = 0" by simp
  from assms have nz: "args_log_interval A \<noteq> 0" by simp
  then show "epoch_body A C 0 s =
      (case train_epoch A C 0 s of Inl e \<Rightarrow> Inl e | Inr s1 \<Rightarrow> evaluation_round A C 0 s1)"
    by (simp add: epoch_body_def split: sum.splits)
  assume "loop_head A C w (Suc 0) = Some s'"
  then obtain s0 where "loop_head A C w 0 = Some s0" and b: "epoch_body A C (int 0) s0 = Inr s'"
    by (rule loop_head_Suc)
  from epoch_body_out [OF b] obtain trl rest loss vm tm where
    "out s' = out s0 @ lr_events A (cyc s0)
            (iterate C (model_train C (world s0)) ''train'' True (args_batch_size A))
            @ [TrainRecord (int 0) trl] @ rest"
    "rest = [EvalRecord (int 0) loss vm tm (tolerance s')]"
    by auto
  then have "last (out s') = EvalRecord 0 loss vm tm (tolerance s')"
    by simp
  then show "\<exists>loss vm tm. last (out s') = EvalRecord 0 loss vm tm (tolerance s')"
    by blast
qed

theorem first_epoch_evaluates_witness:
  "1 \<le> args_log_interval (demo_args ''constant'' 5 1 3) \<and>
   loop_head (demo_args ''constant'' 5 1 3) demo 0 (Suc 0) =
     Some \<lparr> world = 1, tolerance = 0, best_val_loss = 1, best_val_acc = 1 / 2,
       best_result = Some \<lparr> snap_epoch = 0, snap_val_loss = 1,
         snap_val_metric = \<lparr> accuracy = 1 / 2 \<rparr>, snap_test_metric = \<lparr> accuracy = 1 / 2 \<rparr> \<rparr>,
       cyc = None,
       out = [TrainRecord 0 1, EvalRecord 0 1 \<lparr> accuracy = 1 / 2 \<rparr> \<lparr> accuracy = 1 / 2 \<rparr> 0] \<rparr> \<and>
   (\<exists>loss vm tm.
      last [TrainRecord 0 1, EvalRecord 0 1 \<lparr> accuracy = 1 / 2 \<rparr> \<lparr> accuracy = 1 / 2 \<rparr> 0]
        = EvalRecord 0 loss vm tm 0)"
proof -
  let ?A = "demo_args ''constant'' 5 1 3"
  let ?S1 = "\<lparr> world = 1::nat, tolerance = 0, best_val_loss = 1, best_val_acc = 1 / 2,
       best_result = Some \<lparr> snap_epoch = 0, snap_val_loss = 1,
         snap_val_metric = \<lparr> accuracy = 1 / 2 \<rparr>, snap_test_metric = \<lparr> accuracy = 1 / 2 \<rparr> \<rparr>,
       cyc = None,
       out = [TrainRecord 0 1, EvalRecord 0 1 \<lparr> accuracy = 1 / 2 \<rparr> \<lparr> accuracy = 1 / 2 \<rparr> 0] \<rparr>"
  have a: "1 \<le> args_log_interval ?A"
    by (simp add: demo_args_def)
  have h: "loop_head ?A demo 0 (Suc 0) = Some ?S1"
    by (simp add: run_defs demo_defs)
  from first_epoch_evaluates [OF a, of demo "init_state ?A 0" 0 ?S1] h
  have "\<exists>loss vm tm. last (out ?S1) = EvalRecord 0 loss vm tm (tolerance ?S1)"
    by blast
  with a h show ?thesis by simp
qed

end
